theory Spec2Isabelle
  imports Main "HOL-Library.Word" "HOL-Library.Monad_Syntax"
begin

unbundle bit_operations_syntax

section \<open>Data model of the Lua plugin (plugins/janus_lua.c)\<close>

text \<open>
  Pointers are addresses: \<open>hptr\<close> addresses a host handle (\<open>janus_plugin_session\<close>),
  \<open>sptr\<close> a \<open>janus_lua_session\<close> and \<open>rptr\<close> a \<open>janus_recorder\<close>. A pointer that may be
  \<open>NULL\<close> is an \<open>option\<close>. Reading through an address that holds no object (freed memory)
  is a fault: every operation returns \<open>None\<close> there.
\<close>

type_synonym guint32 = "32 word"
type_synonym guint16 = "16 word"
type_synonym hptr = nat
type_synonym sptr = nat
type_synonym rptr = nat

text \<open>
  Modelled from the spec: the host handle \<open>janus_plugin_session\<close> of plugin.h, which is
  not among the sources ("opaque host handle, exclusively owned by the host"); it has the
  three fields janus_lua.c reads or writes: \<open>plugin_handle\<close>, \<open>stopped\<close> and the
  counter of its reference count.
\<close>

record janus_plugin_session =
  plugin_handle :: "sptr option"
  stopped :: bool
  href :: int

text \<open>
  Modelled from the spec: \<open>rtp_header\<close> of rtp.h, which is not among the sources, with
  the two fields janus_lua.c reads and writes ("sequence number/timestamp"), as they lie
  in the buffer (network byte order).
\<close>

record rtp_header =
  seq_number :: "16 word"
  timestamp :: "32 word"

text \<open>
  Modelled from the spec: the recorder object of record.h, which is not among the sources
  ("an optional recorder per medium", "naming a codec, destination folder, and
  filename"): what it was created with, whether it is still open for writing, and the
  number of frames saved to it.
\<close>

record janus_recorder =
  rec_dir :: "string option"
  rec_codec :: "string option"
  rec_filename :: "string option"
  rec_writable :: bool
  rec_frames :: nat

text \<open>
  Modelled from the spec: the structure \<open>janus_lua_session\<close> of janus_lua_data.h, which
  is not among the sources, with the attributes section 3 of the specification lists for a
  session, under the names janus_lua.c uses for them. The switching context \<open>rtpctx\<close>
  belongs to rtp.c and stays abstract (\<open>'c\<close>). \<open>ref\<close> is the counter of the session's
  \<open>janus_refcount\<close>.
\<close>

record 'c janus_lua_session =
  handle :: "hptr option"
  sid :: guint32
  accept_audio :: bool
  accept_video :: bool
  accept_data :: bool
  send_audio :: bool
  send_video :: bool
  send_data :: bool
  bitrate :: guint32
  pli_freq :: guint16
  pli_latest :: int
  rtpctx :: 'c
  recipients :: "sptr list"
  arc :: "rptr option"
  vrc :: "rptr option"
  drc :: "rptr option"
  started :: bool
  hangingup :: int
  destroyed :: bool
  ref :: int

datatype janus_lua_event = janus_lua_event_none | janus_lua_event_resume | janus_lua_event_exit

text \<open>
  Where the scheduler thread stands: about to test the loop condition, inside
  \<open>g_async_queue_pop\<close>, or back from \<open>janus_lua_scheduler\<close>.
\<close>

datatype thread_pc = At_loop_head | In_pop | Returned

datatype janus_lua_async_event_type =
  janus_lua_async_event_type_none
  | janus_lua_async_event_type_pushevent
  | janus_lua_async_event_type_closepc

text \<open>A parsed JSON object is represented by the text it was parsed from.\<close>

record janus_lua_async_event =
  asev_session :: sptr
  asev_type :: janus_lua_async_event_type
  asev_transaction :: "string option"
  asev_event :: "string option"
  asev_jsep :: "string option"

subsection \<open>What the plugin does to the outside\<close>

text \<open>
  The calls into the host (\<open>gateway->...\<close>), the call-ins into the script and the mutex
  operations are appended to a trace, in the order the code performs them.
\<close>

datatype mutex = Sessions_mutex | Lua_mutex | Recipients_mutex sptr | Rec_mutex sptr

datatype buffer = Rtp rtp_header | Rtcp_pli | Rtcp_remb guint32 | Bytes string

datatype lua_value = Lua_number int | Lua_string "string option" | Lua_boolean bool | Lua_lstring buffer

datatype action =
  Lock mutex
  | Unlock mutex
  | Push_event "hptr option" "string option" "string option" "string option"
  | Notify_event "hptr option" string
  | Close_pc "hptr option"
  | Relay_rtp "hptr option" bool buffer int
  | Relay_rtcp "hptr option" bool buffer int
  | Relay_data "hptr option" string int
  | Lua_call string "lua_value list"

text \<open>
  The global variables of the file, the objects they point to, and two ledgers:
  \<open>json_live\<close> counts the references to JSON objects the plugin holds (\<open>json_loads\<close> adds
  one, \<open>json_decref\<close> of a non-NULL object removes one), \<open>mem_live\<close> the blocks obtained
  from \<open>g_malloc0\<close>/\<open>g_strdup\<close> and not yet passed to \<open>g_free\<close> (session structures apart:
  they are the \<open>heap\<close>). \<open>workers\<close> holds the tasks handed to helper threads that were
  launched.
\<close>

record 'c state =
  initialized :: bool
  stopping :: bool
  gateway :: bool
  has_incoming_rtp :: bool
  has_incoming_rtcp :: bool
  has_incoming_data :: bool
  handles :: "hptr \<rightharpoonup> janus_plugin_session"
  heap :: "sptr \<rightharpoonup> 'c janus_lua_session"
  sessions :: "hptr \<rightharpoonup> sptr"
  ids :: "guint32 \<rightharpoonup> sptr"
  recorders :: "rptr \<rightharpoonup> janus_recorder"
  next_rec :: rptr
  events :: "janus_lua_event list"
  scheduler_thread :: "thread_pc option"
  workers :: "janus_lua_async_event list"
  json_live :: int
  mem_live :: int
  trace :: "action list"

definition emit :: "action \<Rightarrow> 'c state \<Rightarrow> 'c state" where
  "emit a st = st\<lparr>trace := trace st @ [a]\<rparr>"

definition janus_mutex_lock :: "mutex \<Rightarrow> 'c state \<Rightarrow> 'c state" where
  "janus_mutex_lock m st = emit (Lock m) st"

definition janus_mutex_unlock :: "mutex \<Rightarrow> 'c state \<Rightarrow> 'c state" where
  "janus_mutex_unlock m st = emit (Unlock m) st"

subsection \<open>The Lua stack of a call-out\<close>

text \<open>
  A stack slot is represented by what the three accessors of the Lua C API return for it.
  Indices start at 1; an index above the top reads as \<open>nil\<close>.
\<close>

record lua_arg =
  tonumber :: int
  tostring :: "string option"
  toboolean :: bool

definition lua_gettop :: "lua_arg list \<Rightarrow> int" where
  "lua_gettop s = int (length s)"

definition lua_tonumber :: "lua_arg list \<Rightarrow> nat \<Rightarrow> int" where
  "lua_tonumber s i = (if 1 \<le> i \<and> i \<le> length s then tonumber (s ! (i - 1)) else 0)"

definition lua_tostring :: "lua_arg list \<Rightarrow> nat \<Rightarrow> string option" where
  "lua_tostring s i = (if 1 \<le> i \<and> i \<le> length s then tostring (s ! (i - 1)) else None)"

definition lua_toboolean :: "lua_arg list \<Rightarrow> nat \<Rightarrow> bool" where
  "lua_toboolean s i = (if 1 \<le> i \<and> i \<le> length s then toboolean (s ! (i - 1)) else False)"

text \<open>
  \<open>guint32 id = lua_tonumber(s, 1)\<close>, \<open>guint16 pli_freq = lua_tonumber(s, 2)\<close> and
  \<open>int len = lua_tonumber(s, 4)\<close>: the number is a \<open>double\<close>, and the conversion to the type
  of the variable is the one the compilers for x86-64 emit. It goes through a signed
  integer, of 64 bits for \<open>guint32\<close> and of 32 bits for \<open>guint16\<close> and \<open>int\<close>, of which the
  low bits are kept; a number outside the range of that integer gives its smallest value,
  whose low bits are zero.
\<close>

definition to_guint32 :: "int \<Rightarrow> guint32" where
  "to_guint32 x =
     (if - 9223372036854775808 \<le> x \<and> x < 9223372036854775808 then word_of_int x else 0)"


definition to_int :: "int \<Rightarrow> int" where
  "to_int x = (if - 2147483648 \<le> x \<and> x < 2147483648 then x else - 2147483648)"

subsection \<open>C library: case-insensitive comparison\<close>

definition tolower :: "char \<Rightarrow> char" where
  "tolower c =
     (case map_of (zip ''ABCDEFGHIJKLMNOPQRSTUVWXYZ'' ''abcdefghijklmnopqrstuvwxyz'') c of
        Some l \<Rightarrow> l
      | None \<Rightarrow> c)"

text \<open>
  \<open>strcasecmp\<close>: 0 when the strings agree up to case, else the difference of the first
  pair of lowered characters that differ (the end of a string counting as 0).
\<close>

fun strcasecmp :: "string \<Rightarrow> string \<Rightarrow> int" where
  "strcasecmp [] [] = 0"
| "strcasecmp [] (b # bs) = - (of_char (tolower b))"
| "strcasecmp (a # as) [] = of_char (tolower a)"
| "strcasecmp (a # as) (b # bs) =
     (if tolower a = tolower b then strcasecmp as bs
      else of_char (tolower a) - of_char (tolower b))"

subsection \<open>Reference counting and the end of a session\<close>

text \<open>
  Modelled from the spec: the reference counter of refcount.h, which is not among the
  sources. \<open>janus_refcount_init\<close> sets the counter to 1, \<open>janus_refcount_increase\<close>
  adds one, and \<open>janus_refcount_decrease\<close> takes one away and calls the function given at
  the initialization when the counter has reached 0 ("destroyed only when the last
  reference is released, at which point its recorder handles are closed and its id is
  removed from the registry"). Here that function is \<open>janus_lua_session_free\<close>.
\<close>

definition janus_recorder_free :: "rptr option \<Rightarrow> (rptr \<rightharpoonup> janus_recorder) \<Rightarrow> (rptr \<rightharpoonup> janus_recorder)" where
  "janus_recorder_free r rs = (case r of None \<Rightarrow> rs | Some a \<Rightarrow> rs(a := None))"

definition janus_lua_session_free :: "sptr \<Rightarrow> 'c state \<Rightarrow> 'c state option" where
  "janus_lua_session_free p st =
     (case heap st p of
        None \<Rightarrow> None
      | Some s \<Rightarrow>
          (case handle s of
             None \<Rightarrow> None
           | Some h \<Rightarrow>
               (case handles st h of
                  None \<Rightarrow> None
                | Some hs \<Rightarrow>
                    Some (st\<lparr>handles := (handles st)(h \<mapsto> hs\<lparr>href := href hs - 1\<rparr>),
                             ids := (ids st)(sid s := None),
                             recorders := janus_recorder_free (drc s)
                                (janus_recorder_free (vrc s)
                                   (janus_recorder_free (arc s) (recorders st))),
                             heap := (heap st)(p := None)\<rparr>))))"

definition janus_refcount_increase :: "sptr \<Rightarrow> 'c state \<Rightarrow> 'c state option" where
  "janus_refcount_increase p st =
     (case heap st p of
        None \<Rightarrow> None
      | Some s \<Rightarrow> Some (st\<lparr>heap := (heap st)(p \<mapsto> s\<lparr>ref := ref s + 1\<rparr>)\<rparr>))"

definition janus_refcount_decrease :: "sptr \<Rightarrow> 'c state \<Rightarrow> 'c state option" where
  "janus_refcount_decrease p st =
     (case heap st p of
        None \<Rightarrow> None
      | Some s \<Rightarrow>
          (let st' = st\<lparr>heap := (heap st)(p \<mapsto> s\<lparr>ref := ref s - 1\<rparr>)\<rparr>
           in if ref s - 1 = 0 then janus_lua_session_free p st' else Some st'))"


text \<open>
  The lookup every call-out starts with, \<open>g_hash_table_lookup(ids, id)\<close>, followed where
  \<open>check\<close> is set by the test \<open>session == NULL || g_atomic_int_get(&session->destroyed)\<close>:
  \<open>Some None\<close> when the call-out gives up, \<open>Some (Some p)\<close> when it goes on with session \<open>p\<close>.
\<close>

definition session_lookup :: "bool \<Rightarrow> 'c state \<Rightarrow> guint32 \<Rightarrow> sptr option option" where
  "session_lookup check st i =
     (case ids st i of
        None \<Rightarrow> Some None
      | Some p \<Rightarrow>
          if check
          then (case heap st p of
                  None \<Rightarrow> None
                | Some s \<Rightarrow> Some (if destroyed s then None else Some p))
          else Some (Some p))"

definition update_session :: "sptr \<Rightarrow> ('c janus_lua_session \<Rightarrow> 'c janus_lua_session) \<Rightarrow> 'c state \<Rightarrow> 'c state option" where
  "update_session p f st =
     (case heap st p of
        None \<Rightarrow> None
      | Some s \<Rightarrow> Some (st\<lparr>heap := (heap st)(p \<mapsto> f s)\<rparr>))"

section \<open>The call-outs\<close>


definition configure :: "sptr \<Rightarrow> string \<Rightarrow> string \<Rightarrow> bool \<Rightarrow> 'c state \<Rightarrow> 'c state option" where
  "configure p medium direction enabled st =
     (if strcasecmp medium ''audio'' = 0 then
        (if strcasecmp direction ''in'' = 0
         then update_session p (\<lambda>x. x\<lparr>accept_audio := enabled\<rparr>) st
         else update_session p (\<lambda>x. x\<lparr>send_audio := enabled\<rparr>) st)
      else if strcasecmp medium ''video'' = 0 then
        (if strcasecmp direction ''in'' = 0
         then update_session p (\<lambda>x. x\<lparr>accept_video := enabled\<rparr>) st
         else update_session p (\<lambda>x. x\<lparr>send_video := enabled\<rparr>) st)
      else if strcasecmp medium ''data'' = 0 then
        (if strcasecmp direction ''in'' = 0
         then update_session p (\<lambda>x. x\<lparr>accept_data := enabled\<rparr>) st
         else update_session p (\<lambda>x. x\<lparr>send_data := enabled\<rparr>) st)
      else Some st)"

definition janus_lua_method_configuremedium :: "lua_arg list \<Rightarrow> 'c state \<Rightarrow> (int \<times> 'c state) option" where
  "janus_lua_method_configuremedium s st =
     (if lua_gettop s \<noteq> 4 then Some (- 1, st)
      else
        let i = to_guint32 (lua_tonumber s 1);
            medium = lua_tostring s 2;
            direction = lua_tostring s 3;
            enabled = lua_toboolean s 4;
            st1 = janus_mutex_lock Sessions_mutex st
        in case session_lookup True st1 i of
             None \<Rightarrow> None
           | Some None \<Rightarrow> Some (- 1, janus_mutex_unlock Sessions_mutex st1)
           | Some (Some p) \<Rightarrow>
               do {
                 st2 \<leftarrow> janus_refcount_increase p st1;
                 st3 \<leftarrow> (case (medium, direction) of
                          (Some m, Some d) \<Rightarrow> configure p m d enabled (janus_mutex_unlock Sessions_mutex st2)
                        | _ \<Rightarrow> Some (janus_mutex_unlock Sessions_mutex st2));
                 st4 \<leftarrow> janus_refcount_decrease p st3;
                 Some (0, st4)
               })"

subsection \<open>Events and PeerConnections\<close>


definition json_decref :: "string option \<Rightarrow> 'c state \<Rightarrow> 'c state" where
  "json_decref j st = (case j of None \<Rightarrow> st | Some _ \<Rightarrow> st\<lparr>json_live := json_live st - 1\<rparr>)"

definition g_malloc0 :: "'c state \<Rightarrow> 'c state" where
  "g_malloc0 st = st\<lparr>mem_live := mem_live st + 1\<rparr>"

definition g_strdup :: "string option \<Rightarrow> 'c state \<Rightarrow> 'c state" where
  "g_strdup t st = (case t of None \<Rightarrow> st | Some _ \<Rightarrow> st\<lparr>mem_live := mem_live st + 1\<rparr>)"

definition g_free :: "'a option \<Rightarrow> 'c state \<Rightarrow> 'c state" where
  "g_free b st = (case b of None \<Rightarrow> st | Some _ \<Rightarrow> st\<lparr>mem_live := mem_live st - 1\<rparr>)"

text \<open>
  A call through \<open>gateway\<close> while the pointer is still \<open>NULL\<close> is a fault; otherwise the
  call is appended to the trace.
\<close>

definition gateway_call :: "action \<Rightarrow> 'c state \<Rightarrow> 'c state option" where
  "gateway_call a st = (if gateway st then Some (emit a st) else None)"

text \<open>
  \<open>g_thread_try_new\<close>: \<open>thread_ok\<close> says whether the thread could be launched; a launched
  helper owns its task.
\<close>

definition janus_lua_async_event_helper :: "janus_lua_async_event option \<Rightarrow> 'c state \<Rightarrow> 'c state option" where
  "janus_lua_async_event_helper data_arg st =
     (case data_arg of
        None \<Rightarrow> Some st
      | Some asev \<Rightarrow>
          do {
            st1 \<leftarrow> (if asev_type asev = janus_lua_async_event_type_pushevent then
                      (case heap st (asev_session asev) of
                         None \<Rightarrow> None
                       | Some x \<Rightarrow>
                           gateway_call (Push_event (handle x) (asev_transaction asev) (asev_event asev) (asev_jsep asev)) st)
                    else if asev_type asev = janus_lua_async_event_type_closepc then
                      (case heap st (asev_session asev) of
                         None \<Rightarrow> None
                       | Some x \<Rightarrow> gateway_call (Close_pc (handle x)) st)
                    else Some st);
            st2 \<leftarrow> janus_refcount_decrease (asev_session asev)
                     (g_free (asev_transaction asev) (json_decref (asev_jsep asev) (json_decref (asev_event asev) st1)));
            Some (g_free (Some asev) st2)
          })"




subsection \<open>Recipients\<close>

text \<open>
  \<open>g_slist_find\<close> is membership, \<open>g_slist_append\<close> adds at the end, \<open>g_slist_remove\<close>
  removes the first occurrence.
\<close>

definition janus_lua_method_addrecipient :: "lua_arg list \<Rightarrow> 'c state \<Rightarrow> (int \<times> 'c state) option" where
  "janus_lua_method_addrecipient s st =
     (if lua_gettop s \<noteq> 2 then Some (- 1, st)
      else
        let i = to_guint32 (lua_tonumber s 1);
            rid = to_guint32 (lua_tonumber s 2);
            st1 = janus_mutex_lock Sessions_mutex st
        in case session_lookup True st1 i of
             None \<Rightarrow> None
           | Some None \<Rightarrow> Some (- 1, janus_mutex_unlock Sessions_mutex st1)
           | Some (Some p) \<Rightarrow>
               do {
                 st2 \<leftarrow> janus_refcount_increase p st1;
                 case session_lookup True st2 rid of
                   None \<Rightarrow> None
                 | Some None \<Rightarrow>
                     do {
                       st3 \<leftarrow> janus_refcount_decrease p st2;
                       Some (- 1, janus_mutex_unlock Sessions_mutex st3)
                     }
                 | Some (Some q) \<Rightarrow>
                     do {
                       st3 \<leftarrow> janus_refcount_increase q st2;
                       let st4 = janus_mutex_unlock Sessions_mutex (janus_mutex_lock (Recipients_mutex p) st3);
                       x \<leftarrow> heap st4 p;
                       st5 \<leftarrow> (if q \<notin> set (recipients x) then
                                 do {
                                   a \<leftarrow> janus_refcount_increase p st4;
                                   b \<leftarrow> janus_refcount_increase q a;
                                   update_session p (\<lambda>y. y\<lparr>recipients := recipients y @ [q]\<rparr>) b
                                 }
                               else Some st4);
                       st6 \<leftarrow> janus_refcount_decrease p (janus_mutex_unlock (Recipients_mutex p) st5);
                       st7 \<leftarrow> janus_refcount_decrease q st6;
                       Some (0, st7)
                     }
               })"

definition janus_lua_method_removerecipient :: "lua_arg list \<Rightarrow> 'c state \<Rightarrow> (int \<times> 'c state) option" where
  "janus_lua_method_removerecipient s st =
     (if lua_gettop s \<noteq> 2 then Some (- 1, st)
      else
        let i = to_guint32 (lua_tonumber s 1);
            rid = to_guint32 (lua_tonumber s 2);
            st1 = janus_mutex_lock Sessions_mutex st
        in case session_lookup False st1 i of
             None \<Rightarrow> None
           | Some None \<Rightarrow> Some (- 1, janus_mutex_unlock Sessions_mutex st1)
           | Some (Some p) \<Rightarrow>
               do {
                 st2 \<leftarrow> janus_refcount_increase p st1;
                 case session_lookup False st2 rid of
                   None \<Rightarrow> None
                 | Some None \<Rightarrow>
                     do {
                       st3 \<leftarrow> janus_refcount_decrease p st2;
                       Some (- 1, janus_mutex_unlock Sessions_mutex st3)
                     }
                 | Some (Some q) \<Rightarrow>
                     do {
                       st3 \<leftarrow> janus_refcount_increase q st2;
                       let st4 = janus_mutex_unlock Sessions_mutex (janus_mutex_lock (Recipients_mutex p) st3);
                       x \<leftarrow> heap st4 p;
                       let unref = (q \<in> set (recipients x));
                       st5 \<leftarrow> (if unref then update_session p (\<lambda>y. y\<lparr>recipients := remove1 q (recipients y)\<rparr>) st4
                               else Some st4);
                       let st6 = janus_mutex_unlock (Recipients_mutex p) st5;
                       st7 \<leftarrow> (if unref then
                                 do {
                                   a \<leftarrow> janus_refcount_decrease p st6;
                                   janus_refcount_decrease q a
                                 }
                               else Some st6);
                       st8 \<leftarrow> janus_refcount_decrease p st7;
                       st9 \<leftarrow> janus_refcount_decrease q st8;
                       Some (0, st9)
                     }
               })"

subsection \<open>Bitrate, keyframe requests and relaying from the script\<close>







subsection \<open>Recording\<close>

text \<open>
  Modelled from the spec: the recorder functions of record.c, which is not among the
  sources. A recorder is opened by \<open>janus_recorder_create\<close> (\<open>create_ok\<close> says for which
  folder, codec and file name that succeeds; a new recorder gets the next free address),
  \<open>janus_recorder_save_frame\<close> appends to an open recorder and does nothing on \<open>NULL\<close>,
  \<open>janus_recorder_close\<close> closes it, and \<open>janus_recorder_free\<close> (above) discards it.
\<close>

definition janus_recorder_create ::
  "(string option \<Rightarrow> string option \<Rightarrow> string option \<Rightarrow> bool) \<Rightarrow> string option \<Rightarrow> string option \<Rightarrow> string option
     \<Rightarrow> 'c state \<Rightarrow> rptr option \<times> 'c state" where
  "janus_recorder_create create_ok folder codec filename st =
     (if create_ok folder codec filename
      then (Some (next_rec st),
            st\<lparr>recorders := (recorders st)(next_rec st \<mapsto>
                   \<lparr>rec_dir = folder, rec_codec = codec, rec_filename = filename,
                    rec_writable = True, rec_frames = 0\<rparr>),
               next_rec := next_rec st + 1\<rparr>)
      else (None, st))"


definition janus_recorder_save_frame :: "rptr option \<Rightarrow> (rptr \<rightharpoonup> janus_recorder) \<Rightarrow> (rptr \<rightharpoonup> janus_recorder)" where
  "janus_recorder_save_frame r rs =
     (case r of
        None \<Rightarrow> rs
      | Some a \<Rightarrow>
          (case rs a of
             None \<Rightarrow> rs
           | Some rc \<Rightarrow> if rec_writable rc then rs(a \<mapsto> rc\<lparr>rec_frames := rec_frames rc + 1\<rparr>) else rs))"

text \<open>
  The loop of \<open>startRecording\<close> over the arguments: \<open>i\<close> and \<open>n\<close> are the variables of the
  code, the triple holds the locals \<open>arc\<close>, \<open>vrc\<close> and \<open>drc\<close>. The result says whether the
  loop ran to its end (\<open>True\<close>) or left by \<open>goto error\<close> (\<open>False\<close>). \<open>strcasecmp\<close> on a
  \<open>NULL\<close> type is a fault.
\<close>

function startrecording_loop ::
  "(string option \<Rightarrow> string option \<Rightarrow> string option \<Rightarrow> bool) \<Rightarrow> lua_arg list \<Rightarrow> sptr \<Rightarrow> nat \<Rightarrow> int
     \<Rightarrow> rptr option \<times> rptr option \<times> rptr option \<Rightarrow> 'c state
     \<Rightarrow> (bool \<times> (rptr option \<times> rptr option \<times> rptr option) \<times> 'c state) option" where
  "startrecording_loop create_ok s p i n (arc_l, vrc_l, drc_l) st =
     (if n > 0 then
        let type = lua_tostring s (i + 1);
            codec = lua_tostring s (i + 2);
            folder = lua_tostring s (i + 3);
            filename = lua_tostring s (i + 4);
            (rc, st1) = janus_recorder_create create_ok folder codec filename st
        in if rc = None then Some (False, (arc_l, vrc_l, drc_l), st1)
           else
             (case type of
                None \<Rightarrow> None
              | Some t \<Rightarrow>
                  if strcasecmp t ''audio'' = 0 then
                    (if arc_l \<noteq> None then Some (False, (arc_l, vrc_l, drc_l), st1)
                     else (case heap st1 p of
                             None \<Rightarrow> None
                           | Some x \<Rightarrow>
                               if arc x \<noteq> None then Some (False, (arc_l, vrc_l, drc_l), st1)
                               else startrecording_loop create_ok s p (i + 4) (n - 4) (rc, vrc_l, drc_l) st1))
                  else if strcasecmp t ''video'' = 0 then
                    (if vrc_l \<noteq> None then Some (False, (arc_l, vrc_l, drc_l), st1)
                     else (case heap st1 p of
                             None \<Rightarrow> None
                           | Some x \<Rightarrow>
                               if vrc x \<noteq> None then Some (False, (arc_l, vrc_l, drc_l), st1)
                               else startrecording_loop create_ok s p (i + 4) (n - 4) (arc_l, rc, drc_l) st1))
                  else if strcasecmp t ''data'' = 0 then
                    (if drc_l \<noteq> None then Some (False, (arc_l, vrc_l, drc_l), st1)
                     else (case heap st1 p of
                             None \<Rightarrow> None
                           | Some x \<Rightarrow>
                               if drc x \<noteq> None then Some (False, (arc_l, vrc_l, drc_l), st1)
                               else startrecording_loop create_ok s p (i + 4) (n - 4) (arc_l, vrc_l, rc) st1))
                  else startrecording_loop create_ok s p (i + 4) (n - 4) (arc_l, vrc_l, drc_l) st1)
      else Some (True, (arc_l, vrc_l, drc_l), st))"
  by pat_completeness auto
termination
  by (relation "measure (\<lambda>(create_ok, s, p, i, n, l, st). nat n)") auto

definition janus_lua_method_startrecording ::
  "(string option \<Rightarrow> string option \<Rightarrow> string option \<Rightarrow> bool) \<Rightarrow> lua_arg list \<Rightarrow> 'c state \<Rightarrow> (int \<times> 'c state) option" where
  "janus_lua_method_startrecording create_ok s st =
     (let n = lua_gettop s
      in if n \<noteq> 5 \<and> n \<noteq> 9 \<and> n \<noteq> 13 then Some (- 1, st)
         else
           let i = to_guint32 (lua_tonumber s 1);
               st1 = janus_mutex_lock Sessions_mutex st
           in case session_lookup True st1 i of
                None \<Rightarrow> None
              | Some None \<Rightarrow> Some (- 1, janus_mutex_unlock Sessions_mutex st1)
              | Some (Some p) \<Rightarrow>
                  do {
                    st2 \<leftarrow> janus_refcount_increase p st1;
                    let st3 = janus_mutex_unlock Sessions_mutex (janus_mutex_lock (Rec_mutex p) st2);
                    (ok, (a, v, d), st4) \<leftarrow> startrecording_loop create_ok s p 1 (n - 1) (None, None, None) st3;
                    if ok then
                      do {
                        st5 \<leftarrow> (if a \<noteq> None then update_session p (\<lambda>y. y\<lparr>arc := a\<rparr>) st4 else Some st4);
                        st6 \<leftarrow> (if v \<noteq> None then update_session p (\<lambda>y. y\<lparr>vrc := v\<rparr>) st5 else Some st5);
                        st7 \<leftarrow> (if d \<noteq> None then update_session p (\<lambda>y. y\<lparr>drc := d\<rparr>) st6 else Some st6);
                        st8 \<leftarrow> janus_refcount_decrease p st7;
                        Some (0, janus_mutex_unlock (Rec_mutex p) st8)
                      }
                    else
                      do {
                        let st5 = st4\<lparr>recorders := janus_recorder_free d
                                     (janus_recorder_free v (janus_recorder_free a (recorders st4)))\<rparr>;
                        st6 \<leftarrow> janus_refcount_decrease p (janus_mutex_unlock (Rec_mutex p) st5);
                        Some (- 1, st6)
                      }
                  })"




section \<open>Plugin entry points\<close>

subsection \<open>The scheduler thread\<close>

text \<open>
  One step of the thread running \<open>janus_lua_scheduler\<close>; \<open>None\<close> when the thread cannot
  move: there is none, it has returned, or it waits in \<open>g_async_queue_pop\<close> on an empty
  queue. The queue is first in, first out. Other threads act between the steps.
\<close>

definition janus_lua_scheduler :: "'c state \<Rightarrow> 'c state option" where
  "janus_lua_scheduler st =
     (case scheduler_thread st of
        Some At_loop_head \<Rightarrow>
          Some (st\<lparr>scheduler_thread := Some (if initialized st \<and> \<not> stopping st then In_pop else Returned)\<rparr>)
      | Some In_pop \<Rightarrow>
          (case events st of
             [] \<Rightarrow> None
           | event # rest \<Rightarrow>
               if event = janus_lua_event_exit
               then Some (st\<lparr>events := rest, scheduler_thread := Some Returned\<rparr>)
               else if event = janus_lua_event_resume
               then Some ((janus_mutex_unlock Lua_mutex
                             (emit (Lua_call ''resumeScheduler'' [])
                                (janus_mutex_lock Lua_mutex (st\<lparr>events := rest\<rparr>))))
                          \<lparr>scheduler_thread := Some At_loop_head\<rparr>)
               else Some (st\<lparr>events := rest, scheduler_thread := Some At_loop_head\<rparr>))
      | _ \<Rightarrow> None)"

text \<open>
  What the other threads do to the scheduler's inputs: the script pokes the scheduler
  (\<open>pokeScheduler\<close> pushes a resume token), and \<open>janus_lua_destroy\<close> sets \<open>stopping\<close> and
  pushes the exit token before it joins the thread.
\<close>

definition janus_lua_destroy_signal :: "'c state \<Rightarrow> 'c state" where
  "janus_lua_destroy_signal st =
     (if \<not> initialized st then st
      else st\<lparr>stopping := True, events := events st @ [janus_lua_event_exit]\<rparr>)"

datatype move = Scheduler | Poke | Destroy

fun run :: "move list \<Rightarrow> 'c state \<Rightarrow> 'c state" where
  "run [] st = st"
| "run (Scheduler # ms) st = run ms (case janus_lua_scheduler st of None \<Rightarrow> st | Some st' \<Rightarrow> st')"
| "run (Poke # ms) st = run ms (st\<lparr>events := events st @ [janus_lua_event_resume]\<rparr>)"
| "run (Destroy # ms) st = run ms (janus_lua_destroy_signal st)"

definition resume_calls :: "action list \<Rightarrow> nat" where
  "resume_calls tr = length (filter (\<lambda>a. a = Lua_call ''resumeScheduler'' []) tr)"

subsection \<open>Initialization\<close>

text \<open>
  A parsed configuration gives, for a category and a name, the item or \<open>NULL\<close>; an item
  has a value or \<open>NULL\<close>.
\<close>

record janus_config_item =
  item_value :: "string option"

type_synonym janus_config = "string \<Rightarrow> string \<Rightarrow> janus_config_item option"

definition JANUS_LUA_PACKAGE :: string where
  "JANUS_LUA_PACKAGE = ''janus.plugin.lua''"

definition lua_functions :: "string list" where
  "lua_functions = [''init'', ''destroy'', ''resumeScheduler'',
     ''createSession'', ''destroySession'', ''querySession'',
     ''handleMessage'',
     ''setupMedia'', ''hangupMedia'']"

text \<open>
  \<open>janus_lua_init\<close>. \<open>callback\<close> says whether the pointer is non-NULL; \<open>parse\<close> is
  \<open>janus_config_parse\<close>; \<open>dofile\<close> is \<open>luaL_dofile\<close>: \<open>None\<close> when the script does not
  load, else which global names are functions; \<open>thread_ok\<close> says whether the scheduler
  thread could be launched. The thread is launched before \<open>initialized\<close> is set: \<open>early\<close>
  is the number of steps it takes in between, and a thread that tests the flag then finds
  what it held before the call. The test of the script item is the code's
  \<open>script == NULL && script->value == NULL\<close>: the right operand is evaluated exactly when
  \<open>script\<close> is \<open>NULL\<close>, and reads through it.
\<close>

definition janus_lua_init ::
  "(string \<Rightarrow> janus_config option) \<Rightarrow> (string option \<Rightarrow> (string \<Rightarrow> bool) option) \<Rightarrow> bool
     \<Rightarrow> nat \<Rightarrow> bool \<Rightarrow> string option \<Rightarrow> 'c state \<Rightarrow> (int \<times> 'c state) option" where
  "janus_lua_init parse dofile thread_ok early callback config_path st =
     (if stopping st then Some (- 1, st)
      else case config_path of
        None \<Rightarrow> Some (- 1, st)
      | Some path \<Rightarrow>
          if \<not> callback then Some (- 1, st)
          else
            let filename = take 254 (path @ ''/'' @ JANUS_LUA_PACKAGE @ ''.cfg'')
            in case parse filename of
                 None \<Rightarrow> Some (- 1, st)
               | Some config \<Rightarrow>
                   let folder = config ''general'' ''path'';
                       lua_folder = (case folder of None \<Rightarrow> None | Some it \<Rightarrow> item_value it);
                       st1 = g_strdup lua_folder st;
                       script = config ''general'' ''script''
                   in do {
                        missing \<leftarrow> (if script = None
                                    then (case script of None \<Rightarrow> None | Some sc \<Rightarrow> Some (item_value sc = None))
                                    else Some False);
                        if missing then Some (- 1, g_free lua_folder st1)
                        else
                          do {
                            sc \<leftarrow> script;
                            let lua_file = item_value sc;
                            let conf = config ''general'' ''config'';
                            let lua_config = (case conf of None \<Rightarrow> None | Some it \<Rightarrow> item_value it);
                            let st2 = g_strdup lua_config (g_strdup lua_file st1);
                            case dofile lua_file of
                              None \<Rightarrow> Some (- 1, g_free lua_file (g_free lua_folder st2))
                            | Some is_function \<Rightarrow>
                                if \<not> list_all is_function lua_functions
                                then Some (- 1, g_free lua_file (g_free lua_folder st2))
                                else
                                  let st3 = st2\<lparr>has_incoming_rtp := has_incoming_rtp st2 \<or> is_function ''incomingRtp'',
                                               has_incoming_rtcp := has_incoming_rtcp st2 \<or> is_function ''incomingRtcp'',
                                               has_incoming_data := has_incoming_data st2 \<or> is_function ''incomingData''\<rparr>;
                                      st4 = emit (Lua_call ''init'' [Lua_string lua_config]) st3;
                                      st5 = st4\<lparr>sessions := Map.empty, ids := Map.empty, events := []\<rparr>
                                  in if \<not> thread_ok
                                     then Some (- 1, g_free lua_config (g_free lua_file (g_free lua_folder
                                                  (st5\<lparr>initialized := False, scheduler_thread := None\<rparr>))))
                                     else
                                       let st6 = run (replicate early Scheduler)
                                                   (st5\<lparr>scheduler_thread := Some At_loop_head\<rparr>)
                                       in Some (0, (g_free lua_config (g_free lua_file (g_free lua_folder st6)))
                                                     \<lparr>gateway := True, initialized := True\<rparr>)
                          }
                      })"

subsection \<open>Sessions\<close>

text \<open>
  The loop of \<open>janus_lua_create_session\<close> that draws an identifier: the list holds the
  successive results of \<open>janus_random_uint32\<close>; \<open>None\<close> when every draw of the list is 0
  or taken (the loop goes on).
\<close>

fun draw_id :: "(guint32 \<rightharpoonup> sptr) \<Rightarrow> guint32 list \<Rightarrow> guint32 option" where
  "draw_id tab [] = None"
| "draw_id tab (r # rs) = (if r = 0 \<or> tab r \<noteq> None then draw_id tab rs else Some r)"





subsection \<open>Incoming media\<close>

text \<open>
  Byte order: on a little-endian host (\<open>le\<close>) the conversions between host and network
  order swap the bytes, on a big-endian host they do nothing.
\<close>

definition bswap16 :: "16 word \<Rightarrow> 16 word" where
  "bswap16 x = push_bit 8 x OR drop_bit 8 x"

definition bswap32 :: "32 word \<Rightarrow> 32 word" where
  "bswap32 x = push_bit 24 x OR push_bit 16 (take_bit 8 (drop_bit 8 x))
               OR push_bit 8 (take_bit 8 (drop_bit 16 x)) OR drop_bit 24 x"

definition ntohl :: "bool \<Rightarrow> 32 word \<Rightarrow> 32 word" where
  "ntohl le x = (if le then bswap32 x else x)"

definition htonl :: "bool \<Rightarrow> 32 word \<Rightarrow> 32 word" where
  "htonl le x = (if le then bswap32 x else x)"

definition ntohs :: "bool \<Rightarrow> 16 word \<Rightarrow> 16 word" where
  "ntohs le x = (if le then bswap16 x else x)"

definition htons :: "bool \<Rightarrow> 16 word \<Rightarrow> 16 word" where
  "htons le x = (if le then bswap16 x else x)"

text \<open>
  \<open>janus_lua_rtp_relay_packet\<close>. \<open>pkt_data\<close> points into the buffer of the incoming
  packet, so the header it holds is the buffer's.
\<close>

record janus_lua_rtp_relay_packet =
  pkt_data :: "rtp_header option"
  pkt_length :: int
  pkt_is_video :: bool
  pkt_timestamp :: "32 word"
  pkt_seq_number :: "16 word"

text \<open>
  \<open>janus_lua_relay_rtp_packet\<close>, called for one recipient. \<open>upd\<close> is
  \<open>janus_rtp_header_update\<close> (rtp.c): from the header, the recipient's switching context,
  the medium and the step it gives the rewritten header and the new context.
\<close>

definition janus_lua_relay_rtp_packet ::
  "(rtp_header \<Rightarrow> 'c \<Rightarrow> bool \<Rightarrow> int \<Rightarrow> rtp_header \<times> 'c) \<Rightarrow> bool \<Rightarrow> sptr \<Rightarrow> janus_lua_rtp_relay_packet
     \<Rightarrow> 'c state \<Rightarrow> (janus_lua_rtp_relay_packet \<times> 'c state) option" where
  "janus_lua_relay_rtp_packet upd le recipient packet st =
     (case pkt_data packet of
        None \<Rightarrow> Some (packet, st)
      | Some hdr \<Rightarrow>
          if pkt_length packet < 1 then Some (packet, st)
          else
            (case heap st recipient of
               None \<Rightarrow> None
             | Some session \<Rightarrow>
                 if handle session = None \<or> \<not> started session then Some (packet, st)
                 else if (pkt_is_video packet \<and> \<not> accept_video session)
                         \<or> (\<not> pkt_is_video packet \<and> \<not> accept_audio session)
                 then Some (packet, st)
                 else
                   let (hdr1, ctx1) = upd hdr (rtpctx session) (pkt_is_video packet)
                                        (if pkt_is_video packet then 4500 else 960);
                       st1 = st\<lparr>heap := (heap st)(recipient \<mapsto> session\<lparr>rtpctx := ctx1\<rparr>)\<rparr>;
                       st2 = (if gateway st1
                              then emit (Relay_rtp (handle session) (pkt_is_video packet) (Rtp hdr1) (pkt_length packet)) st1
                              else st1);
                       hdr2 = hdr1\<lparr>timestamp := htonl le (pkt_timestamp packet),
                                   seq_number := htons le (pkt_seq_number packet)\<rparr>
                   in Some (packet\<lparr>pkt_data := Some hdr2\<rparr>, st2)))"

text \<open>\<open>g_slist_foreach(session->recipients, janus_lua_relay_rtp_packet, &packet)\<close>.\<close>

fun relay_rtp_foreach ::
  "(rtp_header \<Rightarrow> 'c \<Rightarrow> bool \<Rightarrow> int \<Rightarrow> rtp_header \<times> 'c) \<Rightarrow> bool \<Rightarrow> sptr list \<Rightarrow> janus_lua_rtp_relay_packet
     \<Rightarrow> 'c state \<Rightarrow> (janus_lua_rtp_relay_packet \<times> 'c state) option" where
  "relay_rtp_foreach upd le [] packet st = Some (packet, st)"
| "relay_rtp_foreach upd le (r # rs) packet st =
     (case janus_lua_relay_rtp_packet upd le r packet st of
        None \<Rightarrow> None
      | Some (packet1, st1) \<Rightarrow> relay_rtp_foreach upd le rs packet1 st1)"

definition G_USEC_PER_SEC :: int where
  "G_USEC_PER_SEC = 1000000"

text \<open>
  \<open>janus_lua_incoming_rtp\<close>. The result holds the buffer as the function leaves it.
  \<open>now\<close> is what \<open>janus_get_monotonic_time\<close> returns; clock readings and their
  differences are far from the ends of \<open>gint64\<close>, so they are integers here. When the script
  handles RTP itself the code calls \<open>lua_call\<close> with four values on the new stack and no
  function under them, which is a fault.
\<close>

definition janus_lua_incoming_rtp ::
  "(rtp_header \<Rightarrow> 'c \<Rightarrow> bool \<Rightarrow> int \<Rightarrow> rtp_header \<times> 'c) \<Rightarrow> bool \<Rightarrow> int \<Rightarrow> hptr option \<Rightarrow> bool \<Rightarrow> rtp_header \<Rightarrow> int
     \<Rightarrow> 'c state \<Rightarrow> (rtp_header \<times> 'c state) option" where
  "janus_lua_incoming_rtp upd le now handle_arg video buf len st =
     (case handle_arg of
        None \<Rightarrow> Some (buf, st)
      | Some h \<Rightarrow>
          do {
            hs \<leftarrow> handles st h;
            if stopped hs \<or> stopping st \<or> \<not> initialized st then Some (buf, st)
            else
              (case plugin_handle hs of
                 None \<Rightarrow> Some (buf, st)
               | Some p \<Rightarrow>
                   do {
                     session \<leftarrow> heap st p;
                     if destroyed session \<or> hangingup session \<noteq> 0 then Some (buf, st)
                     else if has_incoming_rtp st then None
                     else if (video \<and> \<not> send_video session) \<or> (\<not> video \<and> \<not> send_audio session)
                     then Some (buf, st)
                     else
                       do {
                         let st1 = st\<lparr>recorders :=
                                        janus_recorder_save_frame (if video then vrc session else arc session)
                                          (recorders st)\<rparr>;
                         let packet = \<lparr>pkt_data = Some buf, pkt_length = len, pkt_is_video = video,
                                        pkt_timestamp = ntohl le (timestamp buf),
                                        pkt_seq_number = ntohs le (seq_number buf)\<rparr>;
                         (packet1, st2) \<leftarrow> relay_rtp_foreach upd le (recipients session) packet
                                              (janus_mutex_lock (Recipients_mutex p) st1);
                         let st3 = janus_mutex_unlock (Recipients_mutex p) st2;
                         buf1 \<leftarrow> pkt_data packet1;
                         session1 \<leftarrow> heap st3 p;
                         if video \<and> pli_freq session1 > 0 then
                           (if now - pli_latest session1 \<ge> uint (pli_freq session1) * G_USEC_PER_SEC
                            then
                              do {
                                st4 \<leftarrow> gateway_call (Relay_rtcp (Some h) True Rtcp_pli 12)
                                         (st3\<lparr>heap := (heap st3)(p \<mapsto> session1\<lparr>pli_latest := now\<rparr>)\<rparr>);
                                Some (buf1, st4)
                              }
                            else Some (buf1, st3))
                         else Some (buf1, st3)
                       }
                   })
          })"

text \<open>
  \<open>janus_lua_relay_data_packet\<close>, called for one recipient with the text to forward
  (\<open>strlen\<close> is its length).
\<close>

definition janus_lua_relay_data_packet :: "sptr \<Rightarrow> string option \<Rightarrow> 'c state \<Rightarrow> 'c state option" where
  "janus_lua_relay_data_packet recipient text_arg st =
     (case heap st recipient of
        None \<Rightarrow> None
      | Some session \<Rightarrow>
          if handle session = None \<or> \<not> started session \<or> \<not> accept_data session then Some st
          else
            (case text_arg of
               None \<Rightarrow> Some st
             | Some t \<Rightarrow>
                 if gateway st then Some (emit (Relay_data (handle session) t (int (length t))) st)
                 else Some st))"

fun relay_data_foreach :: "sptr list \<Rightarrow> string option \<Rightarrow> 'c state \<Rightarrow> 'c state option" where
  "relay_data_foreach [] text_arg st = Some st"
| "relay_data_foreach (r # rs) text_arg st =
     (case janus_lua_relay_data_packet r text_arg st of
        None \<Rightarrow> None
      | Some st1 \<Rightarrow> relay_data_foreach rs text_arg st1)"

text \<open>
  \<open>janus_lua_incoming_data\<close>. \<open>len\<close> is an \<open>int\<close>. The script, when it handles data itself,
  is handed the first \<open>len\<close> bytes of the buffer (\<open>lua_pushlstring\<close>; a negative length is
  a size no string can have, which is a fault). Otherwise \<open>g_malloc0(len+1)\<close> gives \<open>NULL\<close>
  for the size 0, and the function returns at its test; a negative size, or \<open>len+1\<close> past
  the end of \<open>int\<close>, is a fault. The bytes copied into \<open>text\<close> are the first \<open>len\<close> bytes
  of the buffer; as a C string they end at the first zero byte.
\<close>

definition janus_lua_incoming_data :: "hptr option \<Rightarrow> string \<Rightarrow> int \<Rightarrow> 'c state \<Rightarrow> 'c state option" where
  "janus_lua_incoming_data handle_arg buf len st =
     (case handle_arg of
        None \<Rightarrow> Some st
      | Some h \<Rightarrow>
          do {
            hs \<leftarrow> handles st h;
            if stopped hs \<or> stopping st \<or> \<not> initialized st then Some st
            else
              (case plugin_handle hs of
                 None \<Rightarrow> Some st
               | Some p \<Rightarrow>
                   do {
                     session \<leftarrow> heap st p;
                     if destroyed session \<or> hangingup session \<noteq> 0 then Some st
                     else if has_incoming_data st then
                       (if len < 0 then None
                        else Some (janus_mutex_unlock Lua_mutex
                               (emit (Lua_call ''incomingData''
                                        [Lua_number (uint (sid session)), Lua_lstring (Bytes (take (nat len) buf)),
                                         Lua_number len])
                                  (janus_mutex_lock Lua_mutex st))))
                     else if \<not> send_data session then Some st
                     else
                       let st0 = st\<lparr>recorders := janus_recorder_save_frame (drc session) (recorders st)\<rparr>
                       in if len + 1 = 0 then Some st0
                          else if len + 1 < 0 \<or> 2147483647 < len + 1 then None
                          else
                            do {
                              let st1 = g_malloc0 st0;
                              let text = takeWhile (\<lambda>c. c \<noteq> CHR 0x00) (take (nat len) buf);
                              st2 \<leftarrow> relay_data_foreach (recipients session) (Some text)
                                       (janus_mutex_lock (Recipients_mutex p) st1);
                              Some (g_free (Some text) (janus_mutex_unlock (Recipients_mutex p) st2))
                            }
                   })
          })"

section \<open>Concrete sessions, states and arguments\<close>

definition session0 :: "unit janus_lua_session" where
  "session0 = \<lparr>handle = Some 1, sid = 7, accept_audio = False, accept_video = False,
     accept_data = False, send_audio = False, send_video = False, send_data = False,
     bitrate = 0, pli_freq = 0, pli_latest = 0, rtpctx = (), recipients = [],
     arc = None, vrc = None, drc = None, started = False, hangingup = 0,
     destroyed = False, ref = 1\<rparr>"

definition state0 :: "unit state" where
  "state0 = \<lparr>initialized = True, stopping = False, gateway = True,
     has_incoming_rtp = False, has_incoming_rtcp = False, has_incoming_data = False,
     handles = [1 \<mapsto> \<lparr>plugin_handle = Some 10, stopped = False, href = 1\<rparr>],
     heap = [10 \<mapsto> session0], sessions = [1 \<mapsto> 10], ids = [7 \<mapsto> 10],
     recorders = Map.empty, next_rec = 0, events = [], scheduler_thread = Some In_pop, workers = [],
     json_live = 0, mem_live = 0, trace = []\<rparr>"

definition number_arg :: "int \<Rightarrow> lua_arg" where
  "number_arg k = \<lparr>tonumber = k, tostring = None, toboolean = True\<rparr>"

definition string_arg :: "string \<Rightarrow> lua_arg" where
  "string_arg t = \<lparr>tonumber = 0, tostring = Some t, toboolean = True\<rparr>"

definition boolean_arg :: "bool \<Rightarrow> lua_arg" where
  "boolean_arg b = \<lparr>tonumber = 0, tostring = None, toboolean = b\<rparr>"

definition state_sched :: "unit state" where
  "state_sched = state0\<lparr>events := [janus_lua_event_exit, janus_lua_event_resume, janus_lua_event_resume]\<rparr>"

definition args_cm_screen :: "lua_arg list" where
  "args_cm_screen = [number_arg 7, string_arg ''screen'', string_arg ''in'', boolean_arg True]"

definition args_cm_typo :: "lua_arg list" where
  "args_cm_typo = [number_arg 7, string_arg ''Audio'', string_arg ''inn'', boolean_arg True]"

definition args_cm_unknown :: "lua_arg list" where
  "args_cm_unknown = [number_arg 8, string_arg ''audio'', string_arg ''in'', boolean_arg True]"

definition args_cm_three :: "lua_arg list" where
  "args_cm_three = [number_arg 7, string_arg ''audio'', string_arg ''in'']"

section \<open>The table of call-outs\<close>

text \<open>
  The functions \<open>janus_lua_init\<close> registers with \<open>lua_register\<close>, and what they take
  from outside the plugin: which texts parse as JSON, whether a helper thread can be
  launched, what the host's \<open>push_event\<close> returns, the clock, and which recorders can be
  created.
\<close>

datatype callout =
  PokeScheduler | PushEvent | NotifyEvent | ClosePc | ConfigureMedium
  | AddRecipient | RemoveRecipient | SetBitrate | SetPliFreq | SendPli
  | RelayRtp | RelayRtcp | RelayData | StartRecording | StopRecording

record world =
  w_valid :: "string \<Rightarrow> bool"
  w_thread_ok :: bool
  w_push_res :: int
  w_now :: int
  w_create_ok :: "string option \<Rightarrow> string option \<Rightarrow> string option \<Rightarrow> bool"



definition create_any :: "string option \<Rightarrow> string option \<Rightarrow> string option \<Rightarrow> bool" where
  "create_any folder codec filename = (codec \<noteq> None \<and> filename \<noteq> None)"



text \<open>Calling \<open>addRecipient\<close> with the same arguments a number of times in a row.\<close>

fun addrecipient_times :: "nat \<Rightarrow> lua_arg list \<Rightarrow> 'c state \<Rightarrow> 'c state option" where
  "addrecipient_times 0 s st = Some st"
| "addrecipient_times (Suc n) s st =
     (case janus_lua_method_addrecipient s st of
        None \<Rightarrow> None
      | Some (r, st') \<Rightarrow> addrecipient_times n s st')"

text \<open>Two sessions, the first of which already relays to the second.\<close>

definition session_a :: "unit janus_lua_session" where
  "session_a = session0\<lparr>recipients := [11], ref := 2\<rparr>"

definition session_b :: "unit janus_lua_session" where
  "session_b = session0\<lparr>handle := Some 2, sid := 8, ref := 2\<rparr>"

definition state_ab :: "unit state" where
  "state_ab = state0\<lparr>
     handles := [1 \<mapsto> \<lparr>plugin_handle = Some 10, stopped = False, href = 1\<rparr>,
                 2 \<mapsto> \<lparr>plugin_handle = Some 11, stopped = False, href = 1\<rparr>],
     heap := [10 \<mapsto> session_a, 11 \<mapsto> session_b],
     sessions := [1 \<mapsto> 10, 2 \<mapsto> 11],
     ids := [7 \<mapsto> 10, 8 \<mapsto> 11]\<rparr>"

definition args_a_b :: "lua_arg list" where
  "args_a_b = [number_arg 7, number_arg 8]"

definition args_b_a :: "lua_arg list" where
  "args_b_a = [number_arg 8, number_arg 7]"

text \<open>
  A session that is recording audio already, and a call of \<open>startRecording\<close> that asks
  for audio again.
\<close>

definition recorder0 :: janus_recorder where
  "recorder0 = \<lparr>rec_dir = Some ''/rec'', rec_codec = Some ''opus'', rec_filename = Some ''first'',
     rec_writable = True, rec_frames = 3\<rparr>"

definition state_rec :: "unit state" where
  "state_rec = state0\<lparr>heap := [10 \<mapsto> session0\<lparr>arc := Some 0\<rparr>],
     recorders := [0 \<mapsto> recorder0], next_rec := 1\<rparr>"

definition args_rec :: "lua_arg list" where
  "args_rec = [number_arg 7, string_arg ''audio'', string_arg ''opus'', string_arg ''/rec'',
     string_arg ''second'']"

text \<open>
  A source (session 10, handle 1) that may send audio and video, relaying to session 11
  (handle 2), which is started and accepts both; the header update used here shifts
  sequence number and timestamp by the recipient's context.
\<close>

definition shift_header :: "rtp_header \<Rightarrow> nat \<Rightarrow> bool \<Rightarrow> int \<Rightarrow> rtp_header \<times> nat" where
  "shift_header hdr ctx video step =
     (hdr\<lparr>seq_number := seq_number hdr + of_nat ctx, timestamp := timestamp hdr + of_nat ctx\<rparr>, Suc ctx)"

definition session_src :: "nat janus_lua_session" where
  "session_src = \<lparr>handle = Some 1, sid = 7, accept_audio = False, accept_video = False,
     accept_data = False, send_audio = True, send_video = True, send_data = True,
     bitrate = 0, pli_freq = 2, pli_latest = 1000000, rtpctx = 0, recipients = [11],
     arc = None, vrc = None, drc = None, started = True, hangingup = 0,
     destroyed = False, ref = 2\<rparr>"

definition session_dst :: "nat janus_lua_session" where
  "session_dst = \<lparr>handle = Some 2, sid = 8, accept_audio = True, accept_video = True,
     accept_data = True, send_audio = False, send_video = False, send_data = False,
     bitrate = 0, pli_freq = 0, pli_latest = 0, rtpctx = 5, recipients = [],
     arc = None, vrc = None, drc = None, started = True, hangingup = 0,
     destroyed = False, ref = 2\<rparr>"

definition state_relay :: "nat state" where
  "state_relay = \<lparr>initialized = True, stopping = False, gateway = True,
     has_incoming_rtp = False, has_incoming_rtcp = False, has_incoming_data = False,
     handles = [1 \<mapsto> \<lparr>plugin_handle = Some 10, stopped = False, href = 1\<rparr>,
                2 \<mapsto> \<lparr>plugin_handle = Some 11, stopped = False, href = 1\<rparr>],
     heap = [10 \<mapsto> session_src, 11 \<mapsto> session_dst],
     sessions = [1 \<mapsto> 10, 2 \<mapsto> 11], ids = [7 \<mapsto> 10, 8 \<mapsto> 11],
     recorders = Map.empty, next_rec = 0, events = [], scheduler_thread = Some In_pop, workers = [],
     json_live = 0, mem_live = 0, trace = []\<rparr>"

definition packet0 :: rtp_header where
  "packet0 = \<lparr>seq_number = 0x0102, timestamp = 0x0A0B0C0D\<rparr>"

text \<open>Reading the trace: calls that relay media to a recipient, and keyframe requests.\<close>

fun is_relay :: "action \<Rightarrow> bool" where
  "is_relay (Relay_rtp h video b len) = True"
| "is_relay (Relay_data h t len) = True"
| "is_relay a = False"

fun is_pli :: "action \<Rightarrow> bool" where
  "is_pli (Relay_rtcp h video Rtcp_pli len) = True"
| "is_pli a = False"

definition pli_requests :: "action list \<Rightarrow> nat" where
  "pli_requests tr = length (filter is_pli tr)"

text \<open>
  Video packets coming in on one handle, one after the other; each comes with the reading
  of the clock at its arrival.
\<close>

fun incoming_video_seq ::
  "(rtp_header \<Rightarrow> 'c \<Rightarrow> bool \<Rightarrow> int \<Rightarrow> rtp_header \<times> 'c) \<Rightarrow> bool \<Rightarrow> hptr \<Rightarrow> (int \<times> rtp_header \<times> int) list
     \<Rightarrow> 'c state \<Rightarrow> 'c state option" where
  "incoming_video_seq upd le h [] st = Some st"
| "incoming_video_seq upd le h ((now, buf, len) # rest) st =
     (case janus_lua_incoming_rtp upd le now (Some h) True buf len st of
        None \<Rightarrow> None
      | Some (buf1, st1) \<Rightarrow> incoming_video_seq upd le h rest st1)"

text \<open>
  Whether, in a stretch of the trace, some call that relays media to a recipient is made
  while the mutex is held (\<open>held\<close> says whether it is held at the start).
\<close>

fun relay_while_locked :: "mutex \<Rightarrow> bool \<Rightarrow> action list \<Rightarrow> bool" where
  "relay_while_locked m held [] = False"
| "relay_while_locked m held (a # tr) =
     (if a = Lock m then relay_while_locked m True tr
      else if a = Unlock m then relay_while_locked m False tr
      else (held \<and> is_relay a) \<or> relay_while_locked m held tr)"




section \<open>The status of a call-out, as the specification words it\<close>

text \<open>
  The specification has a call-out return 0 on success and a negative number on error, and
  names the errors: a wrong number of arguments, a session identifier that does not
  resolve, a payload that is missing or does not parse, and a recorder that cannot be
  opened. The definitions of this section say, from the arguments and the state before the
  call, which of these a call runs into. They follow the words of the specification and
  are compared with the code in the properties.
\<close>

fun wrong_count :: "callout \<Rightarrow> int \<Rightarrow> bool" where
  "wrong_count PokeScheduler n = False"
| "wrong_count PushEvent n = (n \<noteq> 4)"
| "wrong_count NotifyEvent n = (n \<noteq> 2)"
| "wrong_count ClosePc n = (n \<noteq> 1)"
| "wrong_count ConfigureMedium n = (n \<noteq> 4)"
| "wrong_count AddRecipient n = (n \<noteq> 2)"
| "wrong_count RemoveRecipient n = (n \<noteq> 2)"
| "wrong_count SetBitrate n = (n \<noteq> 2)"
| "wrong_count SetPliFreq n = (n \<noteq> 2)"
| "wrong_count SendPli n = (n \<noteq> 1)"
| "wrong_count RelayRtp n = (n \<noteq> 4)"
| "wrong_count RelayRtcp n = (n \<noteq> 4)"
| "wrong_count RelayData n = (n \<noteq> 3)"
| "wrong_count StartRecording n = (n \<noteq> 5 \<and> n \<noteq> 9 \<and> n \<noteq> 13)"
| "wrong_count StopRecording n = (n \<noteq> 2 \<and> n \<noteq> 3 \<and> n \<noteq> 4)"

text \<open>
  An identifier resolves when the table holds a session for it that is not destroyed.
  \<open>notifyEvent\<close> takes a session or none, and \<open>removeRecipient\<close> asks only for sessions
  that are in the table.
\<close>

definition resolves :: "'c state \<Rightarrow> guint32 \<Rightarrow> bool" where
  "resolves st i =
     (case ids st i of
        None \<Rightarrow> False
      | Some p \<Rightarrow> (case heap st p of None \<Rightarrow> False | Some x \<Rightarrow> \<not> destroyed x))"

fun no_session :: "callout \<Rightarrow> lua_arg list \<Rightarrow> 'c state \<Rightarrow> bool" where
  "no_session PokeScheduler s st = False"
| "no_session NotifyEvent s st = False"
| "no_session AddRecipient s st =
     (\<not> resolves st (to_guint32 (lua_tonumber s 1)) \<or> \<not> resolves st (to_guint32 (lua_tonumber s 2)))"
| "no_session RemoveRecipient s st =
     (ids st (to_guint32 (lua_tonumber s 1)) = None \<or> ids st (to_guint32 (lua_tonumber s 2)) = None)"
| "no_session c s st = (\<not> resolves st (to_guint32 (lua_tonumber s 1)))"

text \<open>
  Payloads: the event of \<open>pushEvent\<close> and \<open>notifyEvent\<close> must parse, the jsep of
  \<open>pushEvent\<close> must parse when there is one, and what is relayed must be a string with a
  length of at least 1.
\<close>

definition parses :: "world \<Rightarrow> string option \<Rightarrow> bool" where
  "parses w text_arg = (case text_arg of None \<Rightarrow> False | Some t \<Rightarrow> w_valid w t)"

fun bad_payload :: "world \<Rightarrow> callout \<Rightarrow> lua_arg list \<Rightarrow> bool" where
  "bad_payload w PushEvent s =
     (\<not> parses w (lua_tostring s 3) \<or> (lua_tostring s 4 \<noteq> None \<and> \<not> parses w (lua_tostring s 4)))"
| "bad_payload w NotifyEvent s = (\<not> parses w (lua_tostring s 2))"
| "bad_payload w RelayRtp s = (lua_tostring s 3 = None \<or> to_int (lua_tonumber s 4) < 1)"
| "bad_payload w RelayRtcp s = (lua_tostring s 3 = None \<or> to_int (lua_tonumber s 4) < 1)"
| "bad_payload w RelayData s = (lua_tostring s 2 = None \<or> to_int (lua_tonumber s 3) < 1)"
| "bad_payload w c s = False"

text \<open>
  Recorders: of the \<open>k\<close> requests that follow argument \<open>i\<close>, one is refused when its
  recorder cannot be opened, or when its medium is being recorded already or was asked for
  earlier in the call (\<open>busy\<close> says so for audio, video and data). A request for
  anything else than audio, video or data is passed over.
\<close>

fun recording_refused ::
  "(string option \<Rightarrow> string option \<Rightarrow> string option \<Rightarrow> bool) \<Rightarrow> lua_arg list \<Rightarrow> nat \<Rightarrow> nat
     \<Rightarrow> bool \<times> bool \<times> bool \<Rightarrow> bool" where
  "recording_refused create_ok s i 0 busy = False"
| "recording_refused create_ok s i (Suc k) (a, v, d) =
     (\<not> create_ok (lua_tostring s (i + 3)) (lua_tostring s (i + 2)) (lua_tostring s (i + 4))
      \<or> (case lua_tostring s (i + 1) of
            None \<Rightarrow> recording_refused create_ok s (i + 4) k (a, v, d)
          | Some t \<Rightarrow>
              if strcasecmp t ''audio'' = 0 then a \<or> recording_refused create_ok s (i + 4) k (True, v, d)
              else if strcasecmp t ''video'' = 0 then v \<or> recording_refused create_ok s (i + 4) k (a, True, d)
              else if strcasecmp t ''data'' = 0 then d \<or> recording_refused create_ok s (i + 4) k (a, v, True)
              else recording_refused create_ok s (i + 4) k (a, v, d)))"

definition no_recorder :: "world \<Rightarrow> callout \<Rightarrow> lua_arg list \<Rightarrow> 'c state \<Rightarrow> bool" where
  "no_recorder w c s st =
     (c = StartRecording \<and>
      (case ids st (to_guint32 (lua_tonumber s 1)) of
         None \<Rightarrow> False
       | Some p \<Rightarrow>
           (case heap st p of
              None \<Rightarrow> False
            | Some x \<Rightarrow>
                recording_refused (w_create_ok w) s 1 (nat ((lua_gettop s - 1) div 4))
                  (arc x \<noteq> None, vrc x \<noteq> None, drc x \<noteq> None))))"

definition callout_error :: "world \<Rightarrow> callout \<Rightarrow> lua_arg list \<Rightarrow> 'c state \<Rightarrow> bool" where
  "callout_error w c s st =
     (wrong_count c (lua_gettop s) \<or> bad_payload w c s \<or> no_session c s st \<or> no_recorder w c s st)"

text \<open>
  The status, as the code gives it: -1 on each of these errors and 0 on success, but for
  the two cases where no error of the list is met and the status is another number. The
  call-outs that hand their work to a helper thread (\<open>closePc\<close>, and \<open>pushEvent\<close> with a
  jsep) give 1 when the thread cannot be launched, and \<open>pushEvent\<close> without a jsep gives
  what the host's \<open>push_event\<close> returned.
\<close>

definition deferred :: "callout \<Rightarrow> lua_arg list \<Rightarrow> bool" where
  "deferred c s = (c = ClosePc \<or> (c = PushEvent \<and> lua_tostring s 4 \<noteq> None))"

definition callout_status :: "world \<Rightarrow> callout \<Rightarrow> lua_arg list \<Rightarrow> 'c state \<Rightarrow> int" where
  "callout_status w c s st =
     (if callout_error w c s st then - 1
      else if deferred c s then (if w_thread_ok w then 0 else 1)
      else if c = PushEvent then w_push_res w
      else 0)"




section \<open>Properties\<close>

subsection \<open>Auxiliary facts\<close>

lemma emit_fields [simp]:
  "heap (emit a st) = heap st" "ids (emit a st) = ids st" "sessions (emit a st) = sessions st"
  "handles (emit a st) = handles st" "recorders (emit a st) = recorders st"
  "events (emit a st) = events st" "workers (emit a st) = workers st"
  "json_live (emit a st) = json_live st" "mem_live (emit a st) = mem_live st"
  "initialized (emit a st) = initialized st" "stopping (emit a st) = stopping st"
  "gateway (emit a st) = gateway st" "scheduler_thread (emit a st) = scheduler_thread st"
  "next_rec (emit a st) = next_rec st" "has_incoming_rtp (emit a st) = has_incoming_rtp st"
  "has_incoming_data (emit a st) = has_incoming_data st"
  "trace (emit a st) = trace st @ [a]"
  by (simp_all add: emit_def)

lemma map_upd_same: "m k = Some v \<Longrightarrow> m(k \<mapsto> v) = m"
  by (rule map_upd_triv)

lemma arg_simps [simp]:
  "tonumber (number_arg k) = k" "tostring (number_arg k) = None"
  "tostring (string_arg t) = Some t" "toboolean (boolean_arg b) = b"
  by (simp_all add: number_arg_def string_arg_def boolean_arg_def)

text \<open>Rules to read a property of the result off the structure of a definition.\<close>

lemma res_None: "pred_option P None"
  by simp

lemma res_Some: "P x \<Longrightarrow> pred_option P (Some x)"
  by simp

lemma res_bind: "(\<And>x. m = Some x \<Longrightarrow> pred_option P (f x)) \<Longrightarrow> pred_option P (Option.bind m f)"
  by (cases m) auto

lemma res_case_option:
  "(m = None \<Longrightarrow> pred_option P a) \<Longrightarrow> (\<And>x. m = Some x \<Longrightarrow> pred_option P (b x))
     \<Longrightarrow> pred_option P (case_option a b m)"
  by (cases m) auto

lemma res_if: "(c \<Longrightarrow> pred_option P a) \<Longrightarrow> (\<not> c \<Longrightarrow> pred_option P b) \<Longrightarrow> pred_option P (if c then a else b)"
  by simp

lemma res_let: "(\<And>x. x = v \<Longrightarrow> pred_option P (f x)) \<Longrightarrow> pred_option P (Let v f)"
  by simp

lemma res_case_prod: "(\<And>a b. v = (a, b) \<Longrightarrow> pred_option P (f a b)) \<Longrightarrow> pred_option P (case_prod f v)"
  by (cases v) auto

lemma res_case_prod_app:
  "(\<And>a b. v = (a, b) \<Longrightarrow> pred_option P (f a b x)) \<Longrightarrow> pred_option P (case_prod f v x)"
  by (cases v) auto

lemmas res_rules = res_bind res_case_option res_if res_let res_case_prod res_case_prod_app

declare startrecording_loop.simps [simp del]


text \<open>The steps of a call-out on a state whose sessions are known.\<close>

lemma inc_known:
  "heap st p = Some x \<Longrightarrow>
     janus_refcount_increase p st = Some (st\<lparr>heap := (heap st)(p \<mapsto> x\<lparr>ref := ref x + 1\<rparr>)\<rparr>)"
  by (simp add: janus_refcount_increase_def)

lemma dec_known:
  "heap st p = Some x \<Longrightarrow> ref x \<noteq> 1 \<Longrightarrow>
     janus_refcount_decrease p st = Some (st\<lparr>heap := (heap st)(p \<mapsto> x\<lparr>ref := ref x - 1\<rparr>)\<rparr>)"
  by (simp add: janus_refcount_decrease_def)

lemma update_known:
  "heap st p = Some x \<Longrightarrow> update_session p f st = Some (st\<lparr>heap := (heap st)(p \<mapsto> f x)\<rparr>)"
  by (simp add: update_session_def)

lemma lookup_known:
  "ids st i = Some p \<Longrightarrow> heap st p = Some x \<Longrightarrow> \<not> destroyed x \<Longrightarrow>
     session_lookup c st i = Some (Some p)"
  by (simp add: session_lookup_def)

lemma lookup_unchecked:
  "ids st i = Some p \<Longrightarrow> session_lookup False st i = Some (Some p)"
  by (simp add: session_lookup_def)

lemma lookup_destroyed:
  "ids st i = Some p \<Longrightarrow> heap st p = Some x \<Longrightarrow> destroyed x \<Longrightarrow>
     session_lookup True st i = Some None"
  by (simp add: session_lookup_def)

lemma lookup_missing:
  "ids st i = None \<Longrightarrow> session_lookup c st i = Some None"
  by (simp add: session_lookup_def)

lemmas known_steps =
  janus_mutex_lock_def janus_mutex_unlock_def Let_def lookup_known lookup_unchecked inc_known
  dec_known update_known map_upd_same

subsection \<open>Call-outs given an identifier that does not resolve\<close>























subsection \<open>The scheduler and the exit token\<close>

lemma run_returned:
  "scheduler_thread st = Some Returned \<Longrightarrow>
     scheduler_thread (run ms st) = Some Returned \<and> trace (run ms st) = trace st
     \<and> (\<exists>pushed. events (run ms st) = events st @ pushed)"
proof (induction ms arbitrary: st)
  case Nil
  then show ?case by simp
next
  case (Cons m ms)
  show ?case
  proof (cases m)
    case Scheduler
    with Cons.prems have "run (m # ms) st = run ms st"
      by (simp add: janus_lua_scheduler_def)
    with Cons show ?thesis by simp
  next
    case Poke
    let ?st = "st\<lparr>events := events st @ [janus_lua_event_resume]\<rparr>"
    have "scheduler_thread ?st = Some Returned" using Cons.prems by simp
    from Cons.IH [OF this] Poke show ?thesis by auto
  next
    case Destroy
    let ?st = "janus_lua_destroy_signal st"
    have "scheduler_thread ?st = Some Returned" using Cons.prems
      by (simp add: janus_lua_destroy_signal_def)
    from Cons.IH [OF this] Destroy show ?thesis
      by (auto simp: janus_lua_destroy_signal_def)
  qed
qed

text \<open>
  C7. When the scheduler thread, waiting in \<open>g_async_queue_pop\<close>, pops the exit token, it
  leaves its loop without a call-in; from then on, whatever the other threads push and
  however often the thread is given a turn, it stays returned, the number of
  \<open>resumeScheduler\<close> call-ins in the trace does not grow, and the tokens that were queued
  behind the exit token stay in the queue.
\<close>

theorem scheduler_exit_is_final:
  assumes "scheduler_thread st = Some In_pop"
    and "events st = janus_lua_event_exit # q"
  shows "\<exists>st1. janus_lua_scheduler st = Some st1
           \<and> scheduler_thread st1 = Some Returned \<and> events st1 = q \<and> trace st1 = trace st
           \<and> (\<forall>ms. scheduler_thread (run ms st1) = Some Returned
                  \<and> resume_calls (trace (run ms st1)) = resume_calls (trace st)
                  \<and> (\<exists>pushed. events (run ms st1) = q @ pushed))"
proof -
  let ?st1 = "st\<lparr>events := q, scheduler_thread := Some Returned\<rparr>"
  have step: "janus_lua_scheduler st = Some ?st1"
    using assms by (simp add: janus_lua_scheduler_def)
  have ret: "scheduler_thread ?st1 = Some Returned" by simp
  have "\<forall>ms. scheduler_thread (run ms ?st1) = Some Returned
           \<and> resume_calls (trace (run ms ?st1)) = resume_calls (trace st)
           \<and> (\<exists>pushed. events (run ms ?st1) = q @ pushed)"
    using run_returned [OF ret] by simp
  with step show ?thesis by simp
qed

theorem scheduler_exit_is_final_witness:
  "scheduler_thread state_sched = Some In_pop
   \<and> events state_sched = janus_lua_event_exit # [janus_lua_event_resume, janus_lua_event_resume]
   \<and> scheduler_thread (run [Scheduler, Poke, Scheduler, Scheduler] state_sched) = Some Returned
   \<and> resume_calls (trace (run [Scheduler, Poke, Scheduler, Scheduler] state_sched)) = 0"
  using scheduler_exit_is_final [of state_sched "[janus_lua_event_resume, janus_lua_event_resume]"]
  by (simp add: state_sched_def state0_def janus_lua_scheduler_def resume_calls_def)

subsection \<open>Initialization without a script item\<close>

text \<open>
  C5. With a configuration that has no \<open>script\<close> item in \<open>general\<close>, \<open>janus_lua_init\<close>
  does not return -1: the test reads the value through the \<open>NULL\<close> item, which is a fault.
\<close>

theorem init_missing_script_faults:
  "janus_lua_init (\<lambda>f. Some (\<lambda>category name. None)) dofile thread_ok early True (Some ''/etc/janus'')
     (st\<lparr>stopping := False\<rparr>) = None"
  by (simp add: janus_lua_init_def Let_def)

subsection \<open>configureMedium\<close>

lemma configuremedium_wrong_count:
  "lua_gettop s \<noteq> 4 \<Longrightarrow> janus_lua_method_configuremedium s st = Some (- 1, st)"
  by (simp add: janus_lua_method_configuremedium_def)

lemma configuremedium_no_session:
  assumes "lua_gettop s = 4"
    and "ids st (to_guint32 (lua_tonumber s 1)) = None
         \<or> (\<exists>p x. ids st (to_guint32 (lua_tonumber s 1)) = Some p \<and> heap st p = Some x \<and> destroyed x)"
  shows "janus_lua_method_configuremedium s st
           = Some (- 1, st\<lparr>trace := trace st @ [Lock Sessions_mutex, Unlock Sessions_mutex]\<rparr>)"
  using assms
  by (auto simp: janus_lua_method_configuremedium_def session_lookup_def janus_mutex_lock_def
      janus_mutex_unlock_def emit_def Let_def)

lemma configuremedium_live_session:
  assumes "lua_gettop s = 4"
    and "ids st (to_guint32 (lua_tonumber s 1)) = Some p" and "heap st p = Some x"
    and "\<not> destroyed x" and "0 < ref x"
  shows "\<exists>st'. janus_lua_method_configuremedium s st = Some (0, st') \<and>
             (case (lua_tostring s 2, lua_tostring s 3) of
                (Some m, Some d) \<Rightarrow>
                  (strcasecmp m ''audio'' \<noteq> 0 \<and> strcasecmp m ''video'' \<noteq> 0 \<and> strcasecmp m ''data'' \<noteq> 0
                     \<longrightarrow> heap st' = heap st) \<and>
                  (strcasecmp m ''audio'' = 0 \<and> strcasecmp d ''in'' \<noteq> 0
                     \<longrightarrow> heap st' = (heap st)(p \<mapsto> x\<lparr>send_audio := lua_toboolean s 4\<rparr>)) \<and>
                  (strcasecmp m ''audio'' \<noteq> 0 \<and> strcasecmp m ''video'' = 0 \<and> strcasecmp d ''in'' \<noteq> 0
                     \<longrightarrow> heap st' = (heap st)(p \<mapsto> x\<lparr>send_video := lua_toboolean s 4\<rparr>)) \<and>
                  (strcasecmp m ''audio'' \<noteq> 0 \<and> strcasecmp m ''video'' \<noteq> 0 \<and> strcasecmp m ''data'' = 0
                     \<and> strcasecmp d ''in'' \<noteq> 0
                     \<longrightarrow> heap st' = (heap st)(p \<mapsto> x\<lparr>send_data := lua_toboolean s 4\<rparr>)) \<and>
                  (strcasecmp m ''audio'' = 0 \<and> strcasecmp d ''in'' = 0
                     \<longrightarrow> heap st' = (heap st)(p \<mapsto> x\<lparr>accept_audio := lua_toboolean s 4\<rparr>)) \<and>
                  (strcasecmp m ''audio'' \<noteq> 0 \<and> strcasecmp m ''video'' = 0 \<and> strcasecmp d ''in'' = 0
                     \<longrightarrow> heap st' = (heap st)(p \<mapsto> x\<lparr>accept_video := lua_toboolean s 4\<rparr>)) \<and>
                  (strcasecmp m ''audio'' \<noteq> 0 \<and> strcasecmp m ''video'' \<noteq> 0 \<and> strcasecmp m ''data'' = 0
                     \<and> strcasecmp d ''in'' = 0
                     \<longrightarrow> heap st' = (heap st)(p \<mapsto> x\<lparr>accept_data := lua_toboolean s 4\<rparr>))
              | _ \<Rightarrow> heap st' = heap st)"
  using assms
  by (clarsimp simp: janus_lua_method_configuremedium_def session_lookup_def janus_mutex_lock_def
      janus_mutex_unlock_def janus_refcount_increase_def janus_refcount_decrease_def configure_def
      update_session_def Let_def map_upd_same split: option.splits)

lemma configuremedium_negative:
  assumes "janus_lua_method_configuremedium s st = Some (r, st')" and "r < 0"
  shows "lua_gettop s \<noteq> 4
     \<or> \<not> (\<exists>p x. ids st (to_guint32 (lua_tonumber s 1)) = Some p \<and> heap st p = Some x \<and> \<not> destroyed x)"
  using assms
  by (auto simp: janus_lua_method_configuremedium_def session_lookup_def janus_mutex_lock_def
      janus_mutex_unlock_def janus_refcount_increase_def bind_eq_Some_conv Let_def
      split: option.splits if_splits)

text \<open>
  C10, as the code has it. A call of \<open>configureMedium\<close> with a number of arguments other
  than four returns -1 and changes nothing. With four arguments: when the identifier is
  not in the table, or is that of a destroyed session, the result is -1 and no session
  changes; when it resolves to an existing session that is not destroyed, the result is 0.
  Then a medium that is none of audio, video and data (or a medium or direction that is not
  a string) leaves every session as it was; with a known medium, a direction that
  \<open>strcasecmp\<close> finds equal to \<open>in\<close> sets the accept flag of the medium to the enabled
  argument, and any other direction sets the send flag. So a negative result means that the
  call did not have four arguments, or that the identifier did not resolve to an existing
  session that is not destroyed.
\<close>

theorem configuremedium_existing_session:
  "(lua_gettop s \<noteq> 4 \<longrightarrow> janus_lua_method_configuremedium s st = Some (- 1, st))
   \<and> (lua_gettop s = 4
        \<and> (ids st (to_guint32 (lua_tonumber s 1)) = None
           \<or> (\<exists>p x. ids st (to_guint32 (lua_tonumber s 1)) = Some p \<and> heap st p = Some x \<and> destroyed x))
      \<longrightarrow> janus_lua_method_configuremedium s st
            = Some (- 1, st\<lparr>trace := trace st @ [Lock Sessions_mutex, Unlock Sessions_mutex]\<rparr>))
   \<and> (\<forall>p x. lua_gettop s = 4 \<and> ids st (to_guint32 (lua_tonumber s 1)) = Some p \<and> heap st p = Some x
                \<and> \<not> destroyed x \<and> 0 < ref x \<longrightarrow>
          (\<exists>st'. janus_lua_method_configuremedium s st = Some (0, st') \<and>
             (case (lua_tostring s 2, lua_tostring s 3) of
                (Some m, Some d) \<Rightarrow>
                  (strcasecmp m ''audio'' \<noteq> 0 \<and> strcasecmp m ''video'' \<noteq> 0 \<and> strcasecmp m ''data'' \<noteq> 0
                     \<longrightarrow> heap st' = heap st) \<and>
                  (strcasecmp m ''audio'' = 0 \<and> strcasecmp d ''in'' \<noteq> 0
                     \<longrightarrow> heap st' = (heap st)(p \<mapsto> x\<lparr>send_audio := lua_toboolean s 4\<rparr>)) \<and>
                  (strcasecmp m ''audio'' \<noteq> 0 \<and> strcasecmp m ''video'' = 0 \<and> strcasecmp d ''in'' \<noteq> 0
                     \<longrightarrow> heap st' = (heap st)(p \<mapsto> x\<lparr>send_video := lua_toboolean s 4\<rparr>)) \<and>
                  (strcasecmp m ''audio'' \<noteq> 0 \<and> strcasecmp m ''video'' \<noteq> 0 \<and> strcasecmp m ''data'' = 0
                     \<and> strcasecmp d ''in'' \<noteq> 0
                     \<longrightarrow> heap st' = (heap st)(p \<mapsto> x\<lparr>send_data := lua_toboolean s 4\<rparr>)) \<and>
                  (strcasecmp m ''audio'' = 0 \<and> strcasecmp d ''in'' = 0
                     \<longrightarrow> heap st' = (heap st)(p \<mapsto> x\<lparr>accept_audio := lua_toboolean s 4\<rparr>)) \<and>
                  (strcasecmp m ''audio'' \<noteq> 0 \<and> strcasecmp m ''video'' = 0 \<and> strcasecmp d ''in'' = 0
                     \<longrightarrow> heap st' = (heap st)(p \<mapsto> x\<lparr>accept_video := lua_toboolean s 4\<rparr>)) \<and>
                  (strcasecmp m ''audio'' \<noteq> 0 \<and> strcasecmp m ''video'' \<noteq> 0 \<and> strcasecmp m ''data'' = 0
                     \<and> strcasecmp d ''in'' = 0
                     \<longrightarrow> heap st' = (heap st)(p \<mapsto> x\<lparr>accept_data := lua_toboolean s 4\<rparr>))
              | _ \<Rightarrow> heap st' = heap st)))
   \<and> (\<forall>r st'. janus_lua_method_configuremedium s st = Some (r, st') \<and> r < 0 \<longrightarrow>
          lua_gettop s \<noteq> 4
          \<or> \<not> (\<exists>p x. ids st (to_guint32 (lua_tonumber s 1)) = Some p \<and> heap st p = Some x \<and> \<not> destroyed x))"
proof (intro conjI allI impI)
  assume "lua_gettop s \<noteq> 4"
  then show "janus_lua_method_configuremedium s st = Some (- 1, st)"
    by (rule configuremedium_wrong_count)
next
  assume "lua_gettop s = 4
        \<and> (ids st (to_guint32 (lua_tonumber s 1)) = None
           \<or> (\<exists>p x. ids st (to_guint32 (lua_tonumber s 1)) = Some p \<and> heap st p = Some x \<and> destroyed x))"
  then show "janus_lua_method_configuremedium s st
            = Some (- 1, st\<lparr>trace := trace st @ [Lock Sessions_mutex, Unlock Sessions_mutex]\<rparr>)"
    using configuremedium_no_session [of s st] by blast
next
  fix p x
  assume "lua_gettop s = 4 \<and> ids st (to_guint32 (lua_tonumber s 1)) = Some p \<and> heap st p = Some x
                \<and> \<not> destroyed x \<and> 0 < ref x"
  then have "lua_gettop s = 4" "ids st (to_guint32 (lua_tonumber s 1)) = Some p" "heap st p = Some x"
    "\<not> destroyed x" "0 < ref x" by simp_all
  then show "\<exists>st'. janus_lua_method_configuremedium s st = Some (0, st') \<and>
             (case (lua_tostring s 2, lua_tostring s 3) of
                (Some m, Some d) \<Rightarrow>
                  (strcasecmp m ''audio'' \<noteq> 0 \<and> strcasecmp m ''video'' \<noteq> 0 \<and> strcasecmp m ''data'' \<noteq> 0
                     \<longrightarrow> heap st' = heap st) \<and>
                  (strcasecmp m ''audio'' = 0 \<and> strcasecmp d ''in'' \<noteq> 0
                     \<longrightarrow> heap st' = (heap st)(p \<mapsto> x\<lparr>send_audio := lua_toboolean s 4\<rparr>)) \<and>
                  (strcasecmp m ''audio'' \<noteq> 0 \<and> strcasecmp m ''video'' = 0 \<and> strcasecmp d ''in'' \<noteq> 0
                     \<longrightarrow> heap st' = (heap st)(p \<mapsto> x\<lparr>send_video := lua_toboolean s 4\<rparr>)) \<and>
                  (strcasecmp m ''audio'' \<noteq> 0 \<and> strcasecmp m ''video'' \<noteq> 0 \<and> strcasecmp m ''data'' = 0
                     \<and> strcasecmp d ''in'' \<noteq> 0
                     \<longrightarrow> heap st' = (heap st)(p \<mapsto> x\<lparr>send_data := lua_toboolean s 4\<rparr>)) \<and>
                  (strcasecmp m ''audio'' = 0 \<and> strcasecmp d ''in'' = 0
                     \<longrightarrow> heap st' = (heap st)(p \<mapsto> x\<lparr>accept_audio := lua_toboolean s 4\<rparr>)) \<and>
                  (strcasecmp m ''audio'' \<noteq> 0 \<and> strcasecmp m ''video'' = 0 \<and> strcasecmp d ''in'' = 0
                     \<longrightarrow> heap st' = (heap st)(p \<mapsto> x\<lparr>accept_video := lua_toboolean s 4\<rparr>)) \<and>
                  (strcasecmp m ''audio'' \<noteq> 0 \<and> strcasecmp m ''video'' \<noteq> 0 \<and> strcasecmp m ''data'' = 0
                     \<and> strcasecmp d ''in'' = 0
                     \<longrightarrow> heap st' = (heap st)(p \<mapsto> x\<lparr>accept_data := lua_toboolean s 4\<rparr>))
              | _ \<Rightarrow> heap st' = heap st)"
    by (rule configuremedium_live_session)
next
  fix r st'
  assume "janus_lua_method_configuremedium s st = Some (r, st') \<and> r < 0"
  then show "lua_gettop s \<noteq> 4
          \<or> \<not> (\<exists>p x. ids st (to_guint32 (lua_tonumber s 1)) = Some p \<and> heap st p = Some x \<and> \<not> destroyed x)"
    using configuremedium_negative [of s st r st'] by blast
qed

theorem configuremedium_existing_session_witness:
  "lua_gettop args_cm_typo = 4
   \<and> (\<exists>st'. janus_lua_method_configuremedium args_cm_typo state0 = Some (0, st')
         \<and> heap st' = (heap state0)(10 \<mapsto> session0\<lparr>send_audio := True\<rparr>))
   \<and> (\<exists>st'. janus_lua_method_configuremedium args_cm_screen state0 = Some (0, st')
         \<and> heap st' = heap state0)
   \<and> janus_lua_method_configuremedium args_cm_unknown state0
       = Some (- 1, state0\<lparr>trace := trace state0 @ [Lock Sessions_mutex, Unlock Sessions_mutex]\<rparr>)
   \<and> lua_gettop args_cm_three = 3
   \<and> janus_lua_method_configuremedium args_cm_three state0 = Some (- 1, state0)"
  using configuremedium_existing_session [of args_cm_typo state0]
    configuremedium_existing_session [of args_cm_screen state0]
    configuremedium_existing_session [of args_cm_unknown state0]
    configuremedium_existing_session [of args_cm_three state0]
  by (simp add: args_cm_typo_def args_cm_screen_def args_cm_unknown_def args_cm_three_def
      state0_def session0_def
      lua_gettop_def lua_tonumber_def lua_tostring_def lua_toboolean_def to_guint32_def tolower_def)

text \<open>
  The claim as the specification words it has only unknown identifiers give a negative
  result. Session 7 exists and is not destroyed; called without the enabled argument,
  \<open>configureMedium\<close> returns -1 for it.
\<close>

theorem configuremedium_three_arguments_counterexample:
  "ids state0 7 = Some 10 \<and> heap state0 10 = Some session0 \<and> \<not> destroyed session0
   \<and> to_guint32 (lua_tonumber args_cm_three 1) = 7
   \<and> janus_lua_method_configuremedium args_cm_three state0 = Some (- 1, state0)"
  by (simp add: args_cm_three_def state0_def session0_def lua_gettop_def lua_tonumber_def
      to_guint32_def janus_lua_method_configuremedium_def)

subsection \<open>Recipients: adding and removing\<close>

lemma addrecipient_present_self:
  assumes "lua_gettop s = 2"
    and "ids st (to_guint32 (lua_tonumber s 1)) = Some p"
    and "ids st (to_guint32 (lua_tonumber s 2)) = Some p"
    and "heap st p = Some a" and "\<not> destroyed a" and "0 < ref a"
    and "p \<in> set (recipients a)"
  shows "\<exists>st'. janus_lua_method_addrecipient s st = Some (0, st') \<and> heap st' = heap st
           \<and> ids st' = ids st \<and> sessions st' = sessions st"
  using assms by (simp add: janus_lua_method_addrecipient_def known_steps)

lemma addrecipient_present_other:
  assumes "lua_gettop s = 2"
    and "ids st (to_guint32 (lua_tonumber s 1)) = Some p"
    and "ids st (to_guint32 (lua_tonumber s 2)) = Some q"
    and "heap st p = Some a" and "heap st q = Some b"
    and "\<not> destroyed a" and "\<not> destroyed b" and "0 < ref a" and "0 < ref b"
    and "q \<in> set (recipients a)" and "p \<noteq> q"
  shows "\<exists>st'. janus_lua_method_addrecipient s st = Some (0, st') \<and> heap st' = heap st
           \<and> ids st' = ids st \<and> sessions st' = sessions st"
  using assms by (simp add: janus_lua_method_addrecipient_def known_steps)

lemma addrecipient_new_self:
  assumes "lua_gettop s = 2"
    and "ids st (to_guint32 (lua_tonumber s 1)) = Some p"
    and "ids st (to_guint32 (lua_tonumber s 2)) = Some p"
    and "heap st p = Some a" and "\<not> destroyed a" and "0 < ref a"
    and "p \<notin> set (recipients a)"
  shows "\<exists>st'. janus_lua_method_addrecipient s st = Some (0, st')
           \<and> heap st' p = Some (a\<lparr>recipients := recipients a @ [p], ref := ref a + 2\<rparr>)
           \<and> (\<forall>r. r \<noteq> p \<longrightarrow> heap st' r = heap st r)
           \<and> ids st' = ids st \<and> sessions st' = sessions st"
  using assms by (simp add: janus_lua_method_addrecipient_def known_steps)

lemma addrecipient_new_other:
  assumes "lua_gettop s = 2"
    and "ids st (to_guint32 (lua_tonumber s 1)) = Some p"
    and "ids st (to_guint32 (lua_tonumber s 2)) = Some q"
    and "heap st p = Some a" and "heap st q = Some b"
    and "\<not> destroyed a" and "\<not> destroyed b" and "0 < ref a" and "0 < ref b"
    and "q \<notin> set (recipients a)" and "p \<noteq> q"
  shows "\<exists>st'. janus_lua_method_addrecipient s st = Some (0, st')
           \<and> heap st' p = Some (a\<lparr>recipients := recipients a @ [q], ref := ref a + 1\<rparr>)
           \<and> heap st' q = Some (b\<lparr>ref := ref b + 1\<rparr>)
           \<and> (\<forall>r. r \<noteq> p \<longrightarrow> r \<noteq> q \<longrightarrow> heap st' r = heap st r)
           \<and> ids st' = ids st \<and> sessions st' = sessions st"
  using assms by (simp add: janus_lua_method_addrecipient_def known_steps)

lemma removerecipient_absent_self:
  assumes "lua_gettop s = 2"
    and "ids st (to_guint32 (lua_tonumber s 1)) = Some p"
    and "ids st (to_guint32 (lua_tonumber s 2)) = Some p"
    and "heap st p = Some a" and "0 < ref a"
    and "p \<notin> set (recipients a)"
  shows "\<exists>st'. janus_lua_method_removerecipient s st = Some (0, st') \<and> heap st' = heap st
           \<and> ids st' = ids st \<and> sessions st' = sessions st"
  using assms by (simp add: janus_lua_method_removerecipient_def known_steps)

lemma removerecipient_absent_other:
  assumes "lua_gettop s = 2"
    and "ids st (to_guint32 (lua_tonumber s 1)) = Some p"
    and "ids st (to_guint32 (lua_tonumber s 2)) = Some q"
    and "heap st p = Some a" and "heap st q = Some b"
    and "0 < ref a" and "0 < ref b"
    and "q \<notin> set (recipients a)" and "p \<noteq> q"
  shows "\<exists>st'. janus_lua_method_removerecipient s st = Some (0, st') \<and> heap st' = heap st
           \<and> ids st' = ids st \<and> sessions st' = sessions st"
  using assms by (simp add: janus_lua_method_removerecipient_def known_steps)

lemma removerecipient_present_self:
  assumes "lua_gettop s = 2"
    and "ids st (to_guint32 (lua_tonumber s 1)) = Some p"
    and "ids st (to_guint32 (lua_tonumber s 2)) = Some p"
    and "heap st p = Some a" and "2 < ref a"
    and "p \<in> set (recipients a)"
  shows "\<exists>st'. janus_lua_method_removerecipient s st = Some (0, st')
           \<and> heap st' p = Some (a\<lparr>recipients := remove1 p (recipients a), ref := ref a - 2\<rparr>)
           \<and> (\<forall>r. r \<noteq> p \<longrightarrow> heap st' r = heap st r)
           \<and> ids st' = ids st \<and> sessions st' = sessions st"
  using assms by (simp add: janus_lua_method_removerecipient_def known_steps)

lemma removerecipient_present_other:
  assumes "lua_gettop s = 2"
    and "ids st (to_guint32 (lua_tonumber s 1)) = Some p"
    and "ids st (to_guint32 (lua_tonumber s 2)) = Some q"
    and "heap st p = Some a" and "heap st q = Some b"
    and "1 < ref a" and "1 < ref b"
    and "q \<in> set (recipients a)" and "p \<noteq> q"
  shows "\<exists>st'. janus_lua_method_removerecipient s st = Some (0, st')
           \<and> heap st' p = Some (a\<lparr>recipients := remove1 q (recipients a), ref := ref a - 1\<rparr>)
           \<and> heap st' q = Some (b\<lparr>ref := ref b - 1\<rparr>)
           \<and> (\<forall>r. r \<noteq> p \<longrightarrow> r \<noteq> q \<longrightarrow> heap st' r = heap st r)
           \<and> ids st' = ids st \<and> sessions st' = sessions st"
  using assms by (simp add: janus_lua_method_removerecipient_def known_steps)


lemma addrecipient_times_present:
  assumes "lua_gettop s = 2"
    and "ids st (to_guint32 (lua_tonumber s 1)) = Some p"
    and "ids st (to_guint32 (lua_tonumber s 2)) = Some q"
    and "heap st p = Some a" and "heap st q = Some b"
    and "\<not> destroyed a" and "\<not> destroyed b" and "0 < ref a" and "0 < ref b"
    and "q \<in> set (recipients a)"
  shows "\<exists>st'. addrecipient_times n s st = Some st' \<and> heap st' = heap st \<and> ids st' = ids st"
  using assms
proof (induction n arbitrary: st)
  case 0
  then show ?case by simp
next
  case (Suc n)
  have "\<exists>st1. janus_lua_method_addrecipient s st = Some (0, st1) \<and> heap st1 = heap st
          \<and> ids st1 = ids st \<and> sessions st1 = sessions st"
  proof (cases "p = q")
    case True
    with Suc.prems show ?thesis using addrecipient_present_self [of s st p a] by simp
  next
    case False
    with Suc.prems show ?thesis using addrecipient_present_other [of s st p q a b] by simp
  qed
  then obtain st1 where st1: "janus_lua_method_addrecipient s st = Some (0, st1)"
    "heap st1 = heap st" "ids st1 = ids st" by blast
  from Suc.IH [of st1] Suc.prems st1
  obtain st' where "addrecipient_times n s st1 = Some st'" "heap st' = heap st1" "ids st' = ids st1"
    by auto
  with st1 show ?case by simp
qed

text \<open>
  C3, as the code has it. For two existing sessions A and B (not destroyed, each with a
  positive reference count): however often \<open>addRecipient(A, B)\<close> is called in a row, A's
  list is its old list, with B added at the end once if it was not in it, so a list
  without repetitions stays so; \<open>removeRecipient(A, B)\<close> when B is not in A's list
  changes no session and no table; and when B is not in A's list, \<open>addRecipient(A, B)\<close>
  followed by \<open>removeRecipient(A, B)\<close> gives back the sessions (lists and reference
  counts) and the tables exactly as they were.
\<close>

theorem recipients_add_remove:
  assumes top: "lua_gettop s = 2"
    and ip: "ids st (to_guint32 (lua_tonumber s 1)) = Some p"
    and iq: "ids st (to_guint32 (lua_tonumber s 2)) = Some q"
    and hp: "heap st p = Some a" and hq: "heap st q = Some b"
    and live: "\<not> destroyed a" "\<not> destroyed b" "0 < ref a" "0 < ref b"
  shows "(\<forall>n. \<exists>st' a'. addrecipient_times (Suc n) s st = Some st' \<and> heap st' p = Some a'
            \<and> recipients a' = (if q \<in> set (recipients a) then recipients a else recipients a @ [q])
            \<and> (distinct (recipients a) \<longrightarrow> distinct (recipients a')))
       \<and> (q \<notin> set (recipients a) \<longrightarrow>
            (\<exists>st'. janus_lua_method_removerecipient s st = Some (0, st') \<and> heap st' = heap st
               \<and> ids st' = ids st \<and> sessions st' = sessions st))
       \<and> (q \<notin> set (recipients a) \<longrightarrow>
            (\<exists>st1 st2. janus_lua_method_addrecipient s st = Some (0, st1)
               \<and> janus_lua_method_removerecipient s st1 = Some (0, st2) \<and> heap st2 = heap st
               \<and> ids st2 = ids st \<and> sessions st2 = sessions st))"
proof (intro conjI allI impI)
  fix n
  show "\<exists>st' a'. addrecipient_times (Suc n) s st = Some st' \<and> heap st' p = Some a'
            \<and> recipients a' = (if q \<in> set (recipients a) then recipients a else recipients a @ [q])
            \<and> (distinct (recipients a) \<longrightarrow> distinct (recipients a'))"
  proof (cases "q \<in> set (recipients a)")
    case True
    from addrecipient_times_present [OF top ip iq hp hq live True, of "Suc n"]
    obtain st' where "addrecipient_times (Suc n) s st = Some st'" "heap st' = heap st" by blast
    with hp True show ?thesis by simp
  next
    case False
    have "\<exists>st1 a1 b1. janus_lua_method_addrecipient s st = Some (0, st1)
            \<and> heap st1 p = Some a1 \<and> heap st1 q = Some b1 \<and> ids st1 = ids st
            \<and> recipients a1 = recipients a @ [q] \<and> \<not> destroyed a1 \<and> \<not> destroyed b1
            \<and> 0 < ref a1 \<and> 0 < ref b1"
    proof (cases "p = q")
      case True
      with top ip iq hp hq live False show ?thesis
        using addrecipient_new_self [of s st p a] by auto
    next
      case neq: False
      with top ip iq hp hq live False show ?thesis
        using addrecipient_new_other [of s st p q a b] by auto
    qed
    then obtain st1 a1 b1 where st1: "janus_lua_method_addrecipient s st = Some (0, st1)"
      "heap st1 p = Some a1" "heap st1 q = Some b1" "ids st1 = ids st"
      "recipients a1 = recipients a @ [q]" "\<not> destroyed a1" "\<not> destroyed b1"
      "0 < ref a1" "0 < ref b1" by blast
    have "q \<in> set (recipients a1)" using st1 by simp
    from addrecipient_times_present [of s st1 p q a1 b1 n] top ip iq st1 this
    obtain st' where "addrecipient_times n s st1 = Some st'" "heap st' = heap st1" by auto
    with st1 False show ?thesis by simp
  qed
next
  assume absent: "q \<notin> set (recipients a)"
  show "\<exists>st'. janus_lua_method_removerecipient s st = Some (0, st') \<and> heap st' = heap st
               \<and> ids st' = ids st \<and> sessions st' = sessions st"
  proof (cases "p = q")
    case True
    with top ip iq hp live absent show ?thesis
      using removerecipient_absent_self [of s st p a] by simp
  next
    case False
    with top ip iq hp hq live absent show ?thesis
      using removerecipient_absent_other [of s st p q a b] by simp
  qed
next
  assume absent: "q \<notin> set (recipients a)"
  show "\<exists>st1 st2. janus_lua_method_addrecipient s st = Some (0, st1)
               \<and> janus_lua_method_removerecipient s st1 = Some (0, st2) \<and> heap st2 = heap st
               \<and> ids st2 = ids st \<and> sessions st2 = sessions st"
  proof (cases "p = q")
    case True
    let ?a1 = "a\<lparr>recipients := recipients a @ [p], ref := ref a + 2\<rparr>"
    from addrecipient_new_self [of s st p a] top ip iq hp live absent True
    obtain st1 where st1: "janus_lua_method_addrecipient s st = Some (0, st1)"
      "heap st1 p = Some ?a1" "\<forall>r. r \<noteq> p \<longrightarrow> heap st1 r = heap st r"
      "ids st1 = ids st" "sessions st1 = sessions st" by auto
    from removerecipient_present_self [of s st1 p ?a1] top ip iq st1 live True
    obtain st2 where st2: "janus_lua_method_removerecipient s st1 = Some (0, st2)"
      "heap st2 p = Some (?a1\<lparr>recipients := remove1 p (recipients ?a1), ref := ref ?a1 - 2\<rparr>)"
      "\<forall>r. r \<noteq> p \<longrightarrow> heap st2 r = heap st1 r"
      "ids st2 = ids st1" "sessions st2 = sessions st1" by auto
    have "heap st2 = heap st"
    proof
      fix r
      show "heap st2 r = heap st r"
        using st1 st2 hp absent True by (cases "r = p") (simp_all add: remove1_append)
    qed
    with st1 st2 show ?thesis by simp
  next
    case False
    let ?a1 = "a\<lparr>recipients := recipients a @ [q], ref := ref a + 1\<rparr>"
    let ?b1 = "b\<lparr>ref := ref b + 1\<rparr>"
    from addrecipient_new_other [of s st p q a b] top ip iq hp hq live absent False
    obtain st1 where st1: "janus_lua_method_addrecipient s st = Some (0, st1)"
      "heap st1 p = Some ?a1" "heap st1 q = Some ?b1"
      "\<forall>r. r \<noteq> p \<longrightarrow> r \<noteq> q \<longrightarrow> heap st1 r = heap st r"
      "ids st1 = ids st" "sessions st1 = sessions st" by auto
    from removerecipient_present_other [of s st1 p q ?a1 ?b1] top ip iq st1 live False
    obtain st2 where st2: "janus_lua_method_removerecipient s st1 = Some (0, st2)"
      "heap st2 p = Some (?a1\<lparr>recipients := remove1 q (recipients ?a1), ref := ref ?a1 - 1\<rparr>)"
      "heap st2 q = Some (?b1\<lparr>ref := ref ?b1 - 1\<rparr>)"
      "\<forall>r. r \<noteq> p \<longrightarrow> r \<noteq> q \<longrightarrow> heap st2 r = heap st1 r"
      "ids st2 = ids st1" "sessions st2 = sessions st1" by auto
    have "heap st2 = heap st"
    proof
      fix r
      show "heap st2 r = heap st r"
        using st1 st2 hp hq absent False
        by (cases "r = p"; cases "r = q") (simp_all add: remove1_append)
    qed
    with st1 st2 show ?thesis by simp
  qed
qed

theorem recipients_add_remove_witness:
  "lua_gettop args_b_a = 2
   \<and> ids state_ab (to_guint32 (lua_tonumber args_b_a 1)) = Some 11
   \<and> ids state_ab (to_guint32 (lua_tonumber args_b_a 2)) = Some 10
   \<and> heap state_ab 11 = Some session_b \<and> heap state_ab 10 = Some session_a
   \<and> \<not> destroyed session_b \<and> \<not> destroyed session_a \<and> 0 < ref session_b \<and> 0 < ref session_a
   \<and> 10 \<notin> set (recipients session_b)
   \<and> (\<exists>st1 st2. janus_lua_method_addrecipient args_b_a state_ab = Some (0, st1)
         \<and> janus_lua_method_removerecipient args_b_a st1 = Some (0, st2) \<and> heap st2 = heap state_ab
         \<and> ids st2 = ids state_ab \<and> sessions st2 = sessions state_ab)"
  using recipients_add_remove [of args_b_a state_ab 11 10 session_b session_a]
  by (simp add: args_b_a_def state_ab_def state0_def session_a_def session_b_def session0_def
      lua_gettop_def lua_tonumber_def to_guint32_def)

text \<open>
  The claim as the specification words it holds for every pair of sessions; when B is
  already in A's list, adding changes nothing and removing then takes B out: the list
  of A was \<open>[B]\<close> and is empty afterwards.
\<close>

theorem add_remove_counterexample:
  "map_option recipients
     (heap (snd (the (janus_lua_method_removerecipient args_a_b
                        (snd (the (janus_lua_method_addrecipient args_a_b state_ab)))))) 10)
     = Some []
   \<and> map_option recipients (heap state_ab 10) = Some [11]"
proof -
  have facts: "lua_gettop args_a_b = 2"
    "ids state_ab (to_guint32 (lua_tonumber args_a_b 1)) = Some 10"
    "ids state_ab (to_guint32 (lua_tonumber args_a_b 2)) = Some 11"
    "heap state_ab 10 = Some session_a" "heap state_ab 11 = Some session_b"
    "\<not> destroyed session_a" "\<not> destroyed session_b" "0 < ref session_a" "0 < ref session_b"
    "11 \<in> set (recipients session_a)" "1 < ref session_a" "1 < ref session_b"
    by (simp_all add: args_a_b_def state_ab_def state0_def session_a_def session_b_def session0_def
        lua_gettop_def lua_tonumber_def to_guint32_def)
  from addrecipient_present_other [of args_a_b state_ab 10 11 session_a session_b] facts
  obtain st1 where st1: "janus_lua_method_addrecipient args_a_b state_ab = Some (0, st1)"
    "heap st1 = heap state_ab" "ids st1 = ids state_ab" by auto
  from removerecipient_present_other [of args_a_b st1 10 11 session_a session_b] facts st1
  obtain st2 where st2: "janus_lua_method_removerecipient args_a_b st1 = Some (0, st2)"
    "heap st2 10 = Some (session_a\<lparr>recipients := remove1 11 (recipients session_a),
                                    ref := ref session_a - 1\<rparr>)" by auto
  from st1 st2 facts show ?thesis by (simp add: session_a_def)
qed

subsection \<open>startRecording on a medium that is being recorded\<close>

text \<open>
  C2. The session records audio with recorder 0 and \<open>startRecording\<close> is called for audio
  again. The call returns -1 and leaves the session's recorder and the recorder object 0
  as they were; but the recorder the call had created for the rejected request (object 1)
  is still there and open afterwards, referenced by nothing: the call is not
  all-or-nothing.
\<close>

theorem startrecording_duplicate_leaks_recorder:
  "map_option fst (janus_lua_method_startrecording create_any args_rec state_rec) = Some (- 1)
   \<and> map_option arc (heap (snd (the (janus_lua_method_startrecording create_any args_rec state_rec))) 10)
       = Some (Some 0)
   \<and> recorders (snd (the (janus_lua_method_startrecording create_any args_rec state_rec))) 0
       = Some recorder0
   \<and> recorders state_rec 1 = None
   \<and> recorders (snd (the (janus_lua_method_startrecording create_any args_rec state_rec))) 1
       = Some \<lparr>rec_dir = Some ''/rec'', rec_codec = Some ''opus'', rec_filename = Some ''second'',
                rec_writable = True, rec_frames = 0\<rparr>"
proof -
  have loop: "startrecording_loop create_any args_rec 10 (Suc 0) 4 (None, None, None) st
      = Some (False, (None, None, None),
          st\<lparr>recorders := (recorders st)(next_rec st \<mapsto>
                   \<lparr>rec_dir = Some ''/rec'', rec_codec = Some ''opus'', rec_filename = Some ''second'',
                    rec_writable = True, rec_frames = 0\<rparr>),
               next_rec := next_rec st + 1\<rparr>)"
    if "map_option arc (heap st 10) = Some (Some 0)" for st :: "unit state"
    using that
    by (subst startrecording_loop.simps)
      (auto simp add: args_rec_def lua_tostring_def janus_recorder_create_def create_any_def tolower_def)
  have top: "lua_gettop args_rec = 5"
    and idx: "to_guint32 (lua_tonumber args_rec (Suc 0)) = 7"
    by (simp_all add: args_rec_def lua_gettop_def lua_tonumber_def to_guint32_def)
  show ?thesis
    by (simp add: janus_lua_method_startrecording_def known_steps top idx loop state_rec_def state0_def
        session0_def janus_recorder_free_def)
qed

subsection \<open>Looking a session up, before and after it is destroyed\<close>

lemma draw_id_fresh: "draw_id tab rs = Some i \<Longrightarrow> i \<noteq> 0 \<and> tab i = None"
  by (induction rs) (auto split: if_splits)








subsection \<open>Relaying an RTP packet\<close>

lemma bswap16_twice: "bswap16 (bswap16 x) = x"
  unfolding bswap16_def by (rule bit_word_eqI) (auto simp add: bit_simps)

lemma bswap32_twice: "bswap32 (bswap32 x) = x"
proof (rule bit_word_eqI)
  fix n assume n: "n < LENGTH(32)"
  consider "n < 8" | "8 \<le> n" "n < 16" | "16 \<le> n" "n < 24" | "24 \<le> n" by linarith
  then show "bit (bswap32 (bswap32 x)) n = bit x n"
  proof cases
    case 1 then show ?thesis unfolding bswap32_def by (auto simp add: bit_simps)
  next
    case 2 then show ?thesis unfolding bswap32_def by (auto simp add: bit_simps)
  next
    case 3 then show ?thesis unfolding bswap32_def by (auto simp add: bit_simps)
  next
    case 4 then show ?thesis using n unfolding bswap32_def by (auto simp add: bit_simps)
  qed
qed

lemma htonl_ntohl [simp]: "htonl le (ntohl le x) = x"
  by (simp add: htonl_def ntohl_def bswap32_twice)

lemma htons_ntohs [simp]: "htons le (ntohs le x) = x"
  by (simp add: htons_def ntohs_def bswap16_twice)

text \<open>
  What one call of \<open>janus_lua_relay_rtp_packet\<close> keeps: the backup fields of the packet;
  that the header in the buffer carries the backed-up values; every session but for its
  switching context; and the trace, which gains at most calls of \<open>relay_rtp\<close>.
\<close>

lemma rtpctx_same [simp]: "\<exists>c. y = y\<lparr>rtpctx := c\<rparr>"
  by (rule exI [of _ "rtpctx y"]) simp

lemma relay_rtp_packet_keeps:
  assumes "janus_lua_relay_rtp_packet upd le r packet st = Some (packet1, st1)"
  shows "pkt_timestamp packet1 = pkt_timestamp packet \<and> pkt_seq_number packet1 = pkt_seq_number packet
         \<and> (\<forall>hdr. pkt_data packet = Some hdr \<and> timestamp hdr = htonl le (pkt_timestamp packet)
                  \<and> seq_number hdr = htons le (pkt_seq_number packet) \<longrightarrow>
              (\<exists>hdr1. pkt_data packet1 = Some hdr1 \<and> timestamp hdr1 = htonl le (pkt_timestamp packet)
                  \<and> seq_number hdr1 = htons le (pkt_seq_number packet)))
         \<and> (\<exists>rel. trace st1 = trace st @ rel \<and> list_all is_relay rel)
         \<and> (\<forall>q y. heap st q = Some y \<longrightarrow> (\<exists>c. heap st1 q = Some (y\<lparr>rtpctx := c\<rparr>)))
         \<and> gateway st1 = gateway st \<and> handles st1 = handles st"
proof (cases "\<exists>hdr session. pkt_data packet = Some hdr \<and> \<not> pkt_length packet < 1
    \<and> heap st r = Some session \<and> handle session \<noteq> None \<and> started session
    \<and> (if pkt_is_video packet then accept_video session else accept_audio session)")
  case False
  with assms have "packet1 = packet \<and> st1 = st"
    by (auto simp: janus_lua_relay_rtp_packet_def split: option.splits if_splits)
  then show ?thesis by auto
next
  case True
  then obtain hdr session where h: "pkt_data packet = Some hdr" "\<not> pkt_length packet < 1"
    "heap st r = Some session" "handle session \<noteq> None" "started session"
    "if pkt_is_video packet then accept_video session else accept_audio session" by blast
  obtain hdr1 ctx1 where u: "upd hdr (rtpctx session) (pkt_is_video packet)
      (if pkt_is_video packet then 4500 else 960) = (hdr1, ctx1)" by (cases "upd hdr (rtpctx session)
      (pkt_is_video packet) (if pkt_is_video packet then 4500 else 960)")
  from assms h u have p1: "packet1 = packet\<lparr>pkt_data := Some (hdr1\<lparr>timestamp := htonl le (pkt_timestamp packet),
        seq_number := htons le (pkt_seq_number packet)\<rparr>)\<rparr>"
    and s1: "st1 = (if gateway st
         then emit (Relay_rtp (handle session) (pkt_is_video packet) (Rtp hdr1) (pkt_length packet))
                (st\<lparr>heap := (heap st)(r \<mapsto> session\<lparr>rtpctx := ctx1\<rparr>)\<rparr>)
         else st\<lparr>heap := (heap st)(r \<mapsto> session\<lparr>rtpctx := ctx1\<rparr>)\<rparr>)"
    by (auto simp: janus_lua_relay_rtp_packet_def Let_def split: if_splits)
  have heap1: "\<forall>q y. heap st q = Some y \<longrightarrow> (\<exists>c. heap st1 q = Some (y\<lparr>rtpctx := c\<rparr>))"
  proof (intro allI impI)
    fix q y assume "heap st q = Some y"
    with h s1 show "\<exists>c. heap st1 q = Some (y\<lparr>rtpctx := c\<rparr>)"
      by (cases "q = r") auto
  qed
  have tr: "\<exists>rel. trace st1 = trace st @ rel \<and> list_all is_relay rel"
    using s1 by (cases "gateway st") auto
  from p1 s1 heap1 tr show ?thesis by auto
qed

lemma relay_rtp_foreach_keeps:
  assumes "relay_rtp_foreach upd le rs packet st = Some (packet1, st1)"
    and "pkt_data packet = Some hdr" and "timestamp hdr = htonl le (pkt_timestamp packet)"
    and "seq_number hdr = htons le (pkt_seq_number packet)"
  shows "(\<exists>hdr1. pkt_data packet1 = Some hdr1 \<and> timestamp hdr1 = htonl le (pkt_timestamp packet)
            \<and> seq_number hdr1 = htons le (pkt_seq_number packet))
         \<and> (\<exists>rel. trace st1 = trace st @ rel \<and> list_all is_relay rel)
         \<and> (\<forall>q y. heap st q = Some y \<longrightarrow> (\<exists>c. heap st1 q = Some (y\<lparr>rtpctx := c\<rparr>)))
         \<and> gateway st1 = gateway st \<and> handles st1 = handles st"
  using assms
proof (induction rs arbitrary: packet st hdr)
  case Nil
  then show ?case by auto
next
  case (Cons r rs)
  then obtain packet2 st2 where
    one: "janus_lua_relay_rtp_packet upd le r packet st = Some (packet2, st2)"
    and rest: "relay_rtp_foreach upd le rs packet2 st2 = Some (packet1, st1)"
    by (auto split: option.splits)
  note k = relay_rtp_packet_keeps [OF one]
  from k Cons.prems obtain hdr2 where h2: "pkt_data packet2 = Some hdr2"
    "timestamp hdr2 = htonl le (pkt_timestamp packet2)"
    "seq_number hdr2 = htons le (pkt_seq_number packet2)" by auto
  note ih = Cons.IH [OF rest h2]
  have heap1: "\<forall>q y. heap st q = Some y \<longrightarrow> (\<exists>c. heap st1 q = Some (y\<lparr>rtpctx := c\<rparr>))"
  proof (intro allI impI)
    fix q y assume "heap st q = Some y"
    with k obtain c where "heap st2 q = Some (y\<lparr>rtpctx := c\<rparr>)" by blast
    with ih obtain c' where "heap st1 q = Some (y\<lparr>rtpctx := c, rtpctx := c'\<rparr>)" by blast
    then show "\<exists>c. heap st1 q = Some (y\<lparr>rtpctx := c\<rparr>)" by auto
  qed
  have tr: "\<exists>rel. trace st1 = trace st @ rel \<and> list_all is_relay rel"
  proof -
    from k obtain rel where "trace st2 = trace st @ rel" "list_all is_relay rel" by blast
    moreover from ih obtain rel' where "trace st1 = trace st2 @ rel'" "list_all is_relay rel'" by blast
    ultimately have "trace st1 = trace st @ (rel @ rel') \<and> list_all is_relay (rel @ rel')" by simp
    then show ?thesis by blast
  qed
  from k ih heap1 tr show ?case by auto
qed

text \<open>
  What a call of \<open>janus_lua_incoming_rtp\<close> that returns has done: nothing, or the fan-out
  to the recipients under the recipients mutex, followed, for video with a request
  interval that has elapsed, by a keyframe request.
\<close>

lemma incoming_rtp_outcome:
  "pred_option (\<lambda>(buf1, st1). (buf1 = buf \<and> st1 = st) \<or>
      (\<exists>h hs p x packet1 st2 x1. handle_arg = Some h \<and> handles st h = Some hs
         \<and> plugin_handle hs = Some p \<and> heap st p = Some x
         \<and> relay_rtp_foreach upd le (recipients x)
              \<lparr>pkt_data = Some buf, pkt_length = len, pkt_is_video = video,
               pkt_timestamp = ntohl le (timestamp buf), pkt_seq_number = ntohs le (seq_number buf)\<rparr>
              (janus_mutex_lock (Recipients_mutex p)
                 (st\<lparr>recorders := janus_recorder_save_frame (if video then vrc x else arc x) (recorders st)\<rparr>))
             = Some (packet1, st2)
         \<and> pkt_data packet1 = Some buf1 \<and> heap st2 p = Some x1
         \<and> st1 = (if video \<and> 0 < pli_freq x1 \<and> uint (pli_freq x1) * G_USEC_PER_SEC \<le> now - pli_latest x1
                  then emit (Relay_rtcp (Some h) True Rtcp_pli 12)
                         ((janus_mutex_unlock (Recipients_mutex p) st2)
                            \<lparr>heap := (heap st2)(p \<mapsto> x1\<lparr>pli_latest := now\<rparr>)\<rparr>)
                  else janus_mutex_unlock (Recipients_mutex p) st2)))
     (janus_lua_incoming_rtp upd le now handle_arg video buf len st)"
  unfolding janus_lua_incoming_rtp_def
  by (intro res_rules; (simp; fail)?)
    (auto simp: gateway_call_def janus_mutex_unlock_def split: if_splits)

text \<open>
  C4. Whenever \<open>janus_lua_incoming_rtp\<close> returns, the sequence number and the timestamp in
  the buffer are the ones the buffer held when the packet came in, whatever the header
  update did for the recipients in between.
\<close>

theorem incoming_rtp_restores_header:
  assumes "janus_lua_incoming_rtp upd le now handle_arg video buf len st = Some (buf1, st1)"
  shows "timestamp buf1 = timestamp buf \<and> seq_number buf1 = seq_number buf"
proof -
  let ?packet = "\<lparr>pkt_data = Some buf, pkt_length = len, pkt_is_video = video,
                   pkt_timestamp = ntohl le (timestamp buf), pkt_seq_number = ntohs le (seq_number buf)\<rparr>"
  from incoming_rtp_outcome [of buf st handle_arg upd le len video now] assms
  consider "buf1 = buf"
    | rs st2 packet1 st3 where "relay_rtp_foreach upd le rs ?packet st2 = Some (packet1, st3)"
        "pkt_data packet1 = Some buf1"
    by auto
  then show ?thesis
  proof cases
    case 1
    then show ?thesis by simp
  next
    case 2
    from relay_rtp_foreach_keeps [OF 2(1), of buf] 2(2) show ?thesis by simp
  qed
qed


theorem incoming_rtp_restores_header_witness:
  "janus_lua_incoming_rtp shift_header True 5000000 (Some 1) True packet0 100 state_relay \<noteq> None
   \<and> timestamp (fst (the (janus_lua_incoming_rtp shift_header True 5000000 (Some 1) True packet0 100
                            state_relay))) = timestamp packet0
   \<and> seq_number (fst (the (janus_lua_incoming_rtp shift_header True 5000000 (Some 1) True packet0 100
                             state_relay))) = seq_number packet0"
proof -
  have "janus_lua_incoming_rtp shift_header True 5000000 (Some 1) True packet0 100 state_relay \<noteq> None"
    by (simp add: janus_lua_incoming_rtp_def janus_lua_relay_rtp_packet_def state_relay_def
        session_src_def session_dst_def shift_header_def janus_recorder_save_frame_def
        janus_mutex_lock_def janus_mutex_unlock_def gateway_call_def G_USEC_PER_SEC_def Let_def)
  then obtain buf1 st1 where
    run: "janus_lua_incoming_rtp shift_header True 5000000 (Some 1) True packet0 100 state_relay
            = Some (buf1, st1)" by auto
  from incoming_rtp_restores_header [OF run] run show ?thesis by simp
qed

subsection \<open>Pacing of keyframe requests\<close>

lemma relay_is_no_pli: "is_relay a \<Longrightarrow> \<not> is_pli a"
  by (cases a) auto

lemma pli_requests_relays: "list_all is_relay rel \<Longrightarrow> pli_requests (tr @ rel) = pli_requests tr"
  by (induction rel) (auto simp: pli_requests_def relay_is_no_pli)

lemma incoming_video_pli_step:
  assumes run: "janus_lua_incoming_rtp upd le now (Some h) True buf len st = Some (buf1, st1)"
    and hs: "handles st h = Some hs" "plugin_handle hs = Some p"
    and x: "heap st p = Some x"
  shows "handles st1 = handles st \<and>
     (\<exists>x1. heap st1 p = Some x1 \<and> pli_freq x1 = pli_freq x \<and>
        ((pli_requests (trace st1) = pli_requests (trace st) \<and> pli_latest x1 = pli_latest x)
         \<or> (pli_requests (trace st1) = Suc (pli_requests (trace st)) \<and> pli_latest x1 = now
             \<and> 0 < pli_freq x \<and> uint (pli_freq x) * G_USEC_PER_SEC \<le> now - pli_latest x)))"
proof -
  let ?packet = "\<lparr>pkt_data = Some buf, pkt_length = len, pkt_is_video = True,
                   pkt_timestamp = ntohl le (timestamp buf), pkt_seq_number = ntohs le (seq_number buf)\<rparr>"
  let ?m = "Recipients_mutex p"
  let ?st0 = "janus_mutex_lock ?m (st\<lparr>recorders := janus_recorder_save_frame (vrc x) (recorders st)\<rparr>)"
  from incoming_rtp_outcome [of buf st "Some h" upd le len True now] run hs x
  consider (skip) "st1 = st"
    | (relay) packet1 st2 x1 where
        "relay_rtp_foreach upd le (recipients x) ?packet ?st0 = Some (packet1, st2)"
        "heap st2 p = Some x1"
        "st1 = (if 0 < pli_freq x1 \<and> uint (pli_freq x1) * G_USEC_PER_SEC \<le> now - pli_latest x1
                then emit (Relay_rtcp (Some h) True Rtcp_pli 12)
                       ((janus_mutex_unlock ?m st2)\<lparr>heap := (heap st2)(p \<mapsto> x1\<lparr>pli_latest := now\<rparr>)\<rparr>)
                else janus_mutex_unlock ?m st2)"
    by auto
  then show ?thesis
  proof cases
    case skip
    with x show ?thesis by simp
  next
    case relay
    note k = relay_rtp_foreach_keeps [OF relay(1), of buf]
    from k obtain rel where tr: "trace st2 = trace ?st0 @ rel" "list_all is_relay rel" by auto
    from k x obtain c where "heap st2 p = Some (x\<lparr>rtpctx := c\<rparr>)"
      by (auto simp: janus_mutex_lock_def)
    with relay(2) have x1: "x1 = x\<lparr>rtpctx := c\<rparr>" by simp
    from k have hd: "handles st2 = handles st" by (simp add: janus_mutex_lock_def)
    have count: "pli_requests (trace st2) = pli_requests (trace st)"
      using tr pli_requests_relays [of rel "trace ?st0"]
      by (simp add: janus_mutex_lock_def pli_requests_def)
    show ?thesis
    proof (cases "0 < pli_freq x1 \<and> uint (pli_freq x1) * G_USEC_PER_SEC \<le> now - pli_latest x1")
      case True
      with relay(3) x1 hd count show ?thesis
        by (simp add: janus_mutex_unlock_def pli_requests_def)
    next
      case False
      with relay(2,3) x1 hd count show ?thesis
        by (simp add: janus_mutex_unlock_def pli_requests_def)
    qed
  qed
qed

lemma incoming_video_seq_paced:
  assumes "incoming_video_seq upd le h pkts st = Some st1"
    and "handles st h = Some hs" and "plugin_handle hs = Some p" and "heap st p = Some x"
  shows "\<exists>x1. heap st1 p = Some x1 \<and> pli_freq x1 = pli_freq x
           \<and> pli_requests (trace st) \<le> pli_requests (trace st1)
           \<and> int (pli_requests (trace st1) - pli_requests (trace st)) * (uint (pli_freq x) * G_USEC_PER_SEC)
               \<le> pli_latest x1 - pli_latest x"
  using assms
proof (induction pkts arbitrary: st x)
  case Nil
  then show ?case by simp
next
  case (Cons pkt pkts)
  obtain now buf len where pkt: "pkt = (now, buf, len)" by (cases pkt)
  from Cons.prems(1) pkt obtain buf2 st2 where
    one: "janus_lua_incoming_rtp upd le now (Some h) True buf len st = Some (buf2, st2)"
    and rest: "incoming_video_seq upd le h pkts st2 = Some st1"
    by (auto split: option.splits)
  from incoming_video_pli_step [OF one Cons.prems(2,3,4)]
  obtain x2 where x2: "handles st2 = handles st" "heap st2 p = Some x2" "pli_freq x2 = pli_freq x"
    and step: "(pli_requests (trace st2) = pli_requests (trace st) \<and> pli_latest x2 = pli_latest x)
         \<or> (pli_requests (trace st2) = Suc (pli_requests (trace st)) \<and> pli_latest x2 = now
             \<and> 0 < pli_freq x \<and> uint (pli_freq x) * G_USEC_PER_SEC \<le> now - pli_latest x)"
    by auto
  from x2 Cons.prems have h2: "handles st2 h = Some hs" by simp
  from Cons.IH [OF rest h2 Cons.prems(3) x2(2)]
  obtain x1 where x1: "heap st1 p = Some x1" "pli_freq x1 = pli_freq x2"
    "pli_requests (trace st2) \<le> pli_requests (trace st1)"
    "int (pli_requests (trace st1) - pli_requests (trace st2)) * (uint (pli_freq x2) * G_USEC_PER_SEC)
               \<le> pli_latest x1 - pli_latest x2" by auto
  let ?F = "uint (pli_freq x) * G_USEC_PER_SEC"
  from step show ?case
  proof
    assume "pli_requests (trace st2) = pli_requests (trace st) \<and> pli_latest x2 = pli_latest x"
    with x1 x2 show ?thesis by simp
  next
    assume s: "pli_requests (trace st2) = Suc (pli_requests (trace st)) \<and> pli_latest x2 = now
             \<and> 0 < pli_freq x \<and> uint (pli_freq x) * G_USEC_PER_SEC \<le> now - pli_latest x"
    with x1 have le: "pli_requests (trace st) \<le> pli_requests (trace st1)" by simp
    from s x1 have "int (pli_requests (trace st1) - pli_requests (trace st))
        = int (pli_requests (trace st1) - pli_requests (trace st2)) + 1" by simp
    then have "int (pli_requests (trace st1) - pli_requests (trace st)) * ?F
        = int (pli_requests (trace st1) - pli_requests (trace st2)) * ?F + ?F"
      by (simp add: algebra_simps)
    also from x1 x2 have "\<dots> \<le> (pli_latest x1 - pli_latest x2) + ?F" by simp
    also from s have "\<dots> \<le> pli_latest x1 - pli_latest x" by simp
    finally show ?thesis using x1 x2 le by simp
  qed
qed

text \<open>
  C8. For the session behind a handle, with incoming video packets handled by
  \<open>janus_lua_incoming_rtp\<close>: one packet brings at most one keyframe request; a request is
  sent only if the interval is not zero and at least that many seconds lie between the
  recorded time of the last request and the clock, and the recorded time is then the
  clock's; otherwise the recorded time stays. Over any sequence of such packets the
  interval stays what it was, and the number of requests sent, times the interval, is at
  most the time by which the recorded time has advanced: at most one request per interval.
\<close>

theorem keyframe_requests_paced:
  assumes "handles st h = Some hs" and "plugin_handle hs = Some p" and "heap st p = Some x"
  shows "(\<forall>now buf len buf1 st1.
            janus_lua_incoming_rtp upd le now (Some h) True buf len st = Some (buf1, st1) \<longrightarrow>
            (\<exists>x1. heap st1 p = Some x1 \<and> pli_freq x1 = pli_freq x \<and>
               ((pli_requests (trace st1) = pli_requests (trace st) \<and> pli_latest x1 = pli_latest x)
                \<or> (pli_requests (trace st1) = Suc (pli_requests (trace st)) \<and> pli_latest x1 = now
                    \<and> 0 < pli_freq x \<and> uint (pli_freq x) * G_USEC_PER_SEC \<le> now - pli_latest x))))
       \<and> (\<forall>pkts st1. incoming_video_seq upd le h pkts st = Some st1 \<longrightarrow>
            (\<exists>x1. heap st1 p = Some x1 \<and> pli_freq x1 = pli_freq x
               \<and> pli_requests (trace st) \<le> pli_requests (trace st1)
               \<and> int (pli_requests (trace st1) - pli_requests (trace st))
                    * (uint (pli_freq x) * G_USEC_PER_SEC)
                  \<le> pli_latest x1 - pli_latest x))"
proof (intro conjI allI impI)
  fix now buf len buf1 st1
  assume "janus_lua_incoming_rtp upd le now (Some h) True buf len st = Some (buf1, st1)"
  from incoming_video_pli_step [OF this assms]
  show "\<exists>x1. heap st1 p = Some x1 \<and> pli_freq x1 = pli_freq x \<and>
               ((pli_requests (trace st1) = pli_requests (trace st) \<and> pli_latest x1 = pli_latest x)
                \<or> (pli_requests (trace st1) = Suc (pli_requests (trace st)) \<and> pli_latest x1 = now
                    \<and> 0 < pli_freq x \<and> uint (pli_freq x) * G_USEC_PER_SEC \<le> now - pli_latest x))"
    by blast
next
  fix pkts st1
  assume "incoming_video_seq upd le h pkts st = Some st1"
  from incoming_video_seq_paced [OF this assms]
  show "\<exists>x1. heap st1 p = Some x1 \<and> pli_freq x1 = pli_freq x
               \<and> pli_requests (trace st) \<le> pli_requests (trace st1)
               \<and> int (pli_requests (trace st1) - pli_requests (trace st))
                    * (uint (pli_freq x) * G_USEC_PER_SEC)
                  \<le> pli_latest x1 - pli_latest x" .
qed


theorem keyframe_requests_paced_witness:
  "handles state_relay 1 = Some \<lparr>plugin_handle = Some 10, stopped = False, href = 1\<rparr>
   \<and> heap state_relay 10 = Some session_src
   \<and> (\<exists>st1 x1. incoming_video_seq shift_header True 1
                   [(5000000, packet0, 100), (5500000, packet0, 100)] state_relay = Some st1
         \<and> heap st1 10 = Some x1 \<and> pli_freq x1 = 2 \<and> pli_latest x1 = 5000000
         \<and> pli_requests (trace st1) = 1
         \<and> int (pli_requests (trace st1) - pli_requests (trace state_relay))
              * (uint (pli_freq session_src) * G_USEC_PER_SEC)
            \<le> pli_latest x1 - pli_latest session_src)"
  using keyframe_requests_paced [of state_relay 1 "\<lparr>plugin_handle = Some 10, stopped = False, href = 1\<rparr>"
      10 session_src shift_header True]
  by (simp add: janus_lua_incoming_rtp_def janus_lua_relay_rtp_packet_def state_relay_def
      session_src_def session_dst_def shift_header_def janus_recorder_save_frame_def
      janus_mutex_lock_def janus_mutex_unlock_def gateway_call_def G_USEC_PER_SEC_def Let_def
      pli_requests_def)

subsection \<open>The recipients mutex during the fan-out\<close>

lemma relay_data_packet_keeps:
  assumes "janus_lua_relay_data_packet r t st = Some st1"
  shows "\<exists>rel. trace st1 = trace st @ rel \<and> list_all is_relay rel"
  using assms
  by (auto simp: janus_lua_relay_data_packet_def split: option.splits if_splits)

lemma relay_data_foreach_keeps:
  assumes "relay_data_foreach rs t st = Some st1"
  shows "\<exists>rel. trace st1 = trace st @ rel \<and> list_all is_relay rel"
  using assms
proof (induction rs arbitrary: st)
  case Nil
  then show ?case by simp
next
  case (Cons r rs)
  then obtain st2 where one: "janus_lua_relay_data_packet r t st = Some st2"
    and rest: "relay_data_foreach rs t st2 = Some st1"
    by (auto split: option.splits)
  from relay_data_packet_keeps [OF one] obtain rel where
    "trace st2 = trace st @ rel" "list_all is_relay rel" by blast
  moreover from Cons.IH [OF rest] obtain rel' where
    "trace st1 = trace st2 @ rel'" "list_all is_relay rel'" by blast
  ultimately have "trace st1 = trace st @ (rel @ rel') \<and> list_all is_relay (rel @ rel')" by simp
  then show ?case by blast
qed

lemma incoming_data_outcome:
  "pred_option (\<lambda>st1. st1 = st
      \<or> (\<exists>rs. st1 = st\<lparr>recorders := rs\<rparr>)
      \<or> (\<exists>args. st1 = janus_mutex_unlock Lua_mutex
                         (emit (Lua_call ''incomingData'' args) (janus_mutex_lock Lua_mutex st)))
      \<or> (\<exists>h hs p x st2. handle_arg = Some h \<and> handles st h = Some hs
           \<and> plugin_handle hs = Some p \<and> heap st p = Some x
           \<and> relay_data_foreach (recipients x)
                (Some (takeWhile (\<lambda>c. c \<noteq> CHR 0x00) (take (nat len) buf)))
                (janus_mutex_lock (Recipients_mutex p)
                   (g_malloc0 (st\<lparr>recorders := janus_recorder_save_frame (drc x) (recorders st)\<rparr>)))
               = Some st2
           \<and> st1 = g_free (Some (takeWhile (\<lambda>c. c \<noteq> CHR 0x00) (take (nat len) buf)))
                      (janus_mutex_unlock (Recipients_mutex p) st2)))
     (janus_lua_incoming_data handle_arg buf len st)"
  unfolding janus_lua_incoming_data_def
  by (intro res_rules; (simp; fail)?) auto

lemma relays_inside:
  assumes "list_all is_relay rel" and "\<not> list_ex is_relay tail"
  shows "list_ex is_relay (Lock m # rel @ Unlock m # tail) \<longrightarrow>
     (\<exists>rel' tail'. Lock m # rel @ Unlock m # tail = Lock m # rel' @ Unlock m # tail'
         \<and> list_all is_relay rel' \<and> \<not> list_ex is_relay tail')"
  using assms by blast

lemma incoming_rtp_trace:
  assumes run: "janus_lua_incoming_rtp upd le now (Some h) video buf len st = Some (buf1, st1)"
    and hs: "handles st h = Some hs" and p: "plugin_handle hs = Some p"
  shows "trace st1 = trace st
     \<or> (\<exists>rel tail. trace st1 = trace st @ Lock (Recipients_mutex p) # rel @ Unlock (Recipients_mutex p) # tail
           \<and> list_all is_relay rel \<and> \<not> list_ex is_relay tail)"
proof -
  let ?m = "Recipients_mutex p"
  have "pred_option (\<lambda>(buf1, st1). trace st1 = trace st
     \<or> (\<exists>rel tail. trace st1 = trace st @ Lock ?m # rel @ Unlock ?m # tail
           \<and> list_all is_relay rel \<and> \<not> list_ex is_relay tail))
     (janus_lua_incoming_rtp upd le now (Some h) video buf len st)"
  proof (rule option.pred_mono_strong [OF incoming_rtp_outcome [of buf st "Some h" upd le len video now]])
    fix z :: "rtp_header \<times> 'a state"
    obtain b s where z: "z = (b, s)" by (cases z)
    let ?packet = "\<lparr>pkt_data = Some buf, pkt_length = len, pkt_is_video = video,
       pkt_timestamp = ntohl le (timestamp buf), pkt_seq_number = ntohs le (seq_number buf)\<rparr>"
    assume "case z of (buf1, st1) \<Rightarrow> (buf1 = buf \<and> st1 = st) \<or>
      (\<exists>h' hs p x packet1 st2 x1. Some h = Some h' \<and> handles st h' = Some hs
         \<and> plugin_handle hs = Some p \<and> heap st p = Some x
         \<and> relay_rtp_foreach upd le (recipients x) ?packet
              (janus_mutex_lock (Recipients_mutex p)
                 (st\<lparr>recorders := janus_recorder_save_frame (if video then vrc x else arc x) (recorders st)\<rparr>))
             = Some (packet1, st2)
         \<and> pkt_data packet1 = Some buf1 \<and> heap st2 p = Some x1
         \<and> st1 = (if video \<and> 0 < pli_freq x1 \<and> uint (pli_freq x1) * G_USEC_PER_SEC \<le> now - pli_latest x1
                  then emit (Relay_rtcp (Some h') True Rtcp_pli 12)
                         ((janus_mutex_unlock (Recipients_mutex p) st2)
                            \<lparr>heap := (heap st2)(p \<mapsto> x1\<lparr>pli_latest := now\<rparr>)\<rparr>)
                  else janus_mutex_unlock (Recipients_mutex p) st2))"
    then have "(b = buf \<and> s = st) \<or>
      (\<exists>(x :: 'a janus_lua_session) packet1 st2 tail.
           relay_rtp_foreach upd le (recipients x) ?packet
              (janus_mutex_lock ?m
                 (st\<lparr>recorders := janus_recorder_save_frame (if video then vrc x else arc x) (recorders st)\<rparr>))
             = Some (packet1, st2)
         \<and> trace s = trace st2 @ Unlock ?m # tail \<and> \<not> list_ex is_relay tail)"
      unfolding z prod.case
    proof (elim disjE exE conjE)
      assume "b = buf" "s = st"
      then show ?thesis by simp
    next
      fix x :: "'a janus_lua_session"
      fix h' hs' p' packet1 st2 x1
      assume eq: "Some h = Some h'" "handles st h' = Some hs'" "plugin_handle hs' = Some p'"
        and fe: "relay_rtp_foreach upd le (recipients x) ?packet
              (janus_mutex_lock (Recipients_mutex p')
                 (st\<lparr>recorders := janus_recorder_save_frame (if video then vrc x else arc x) (recorders st)\<rparr>))
             = Some (packet1, st2)"
        and s1: "s = (if video \<and> 0 < pli_freq x1 \<and> uint (pli_freq x1) * G_USEC_PER_SEC \<le> now - pli_latest x1
                  then emit (Relay_rtcp (Some h') True Rtcp_pli 12)
                         ((janus_mutex_unlock (Recipients_mutex p') st2)
                            \<lparr>heap := (heap st2)(p' \<mapsto> x1\<lparr>pli_latest := now\<rparr>)\<rparr>)
                  else janus_mutex_unlock (Recipients_mutex p') st2)"
      from eq hs p have pp: "p' = p" by simp
      define tail where "tail = (if video \<and> 0 < pli_freq x1
          \<and> uint (pli_freq x1) * G_USEC_PER_SEC \<le> now - pli_latest x1
        then [Relay_rtcp (Some h') True Rtcp_pli 12] else [])"
      from s1 pp have "trace s = trace st2 @ Unlock ?m # tail"
        by (simp add: janus_mutex_unlock_def tail_def)
      moreover have "\<not> list_ex is_relay tail" by (simp add: tail_def)
      moreover note fe [unfolded pp]
      ultimately show ?thesis by (intro disjI2 exI conjI)
    qed
    then have "trace s = trace st
     \<or> (\<exists>rel tail. trace s = trace st @ Lock ?m # rel @ Unlock ?m # tail
           \<and> list_all is_relay rel \<and> \<not> list_ex is_relay tail)"
    proof (elim disjE exE conjE)
      assume "s = st"
      then show ?thesis by simp
    next
      fix x :: "'a janus_lua_session"
      fix packet1 st2 tail
      assume fe: "relay_rtp_foreach upd le (recipients x) ?packet
              (janus_mutex_lock ?m
                 (st\<lparr>recorders := janus_recorder_save_frame (if video then vrc x else arc x) (recorders st)\<rparr>))
             = Some (packet1, st2)"
        and tr: "trace s = trace st2 @ Unlock ?m # tail" and tl: "\<not> list_ex is_relay tail"
      from relay_rtp_foreach_keeps [OF fe, of buf] obtain rel where
        "trace st2 = trace st @ Lock ?m # rel" "list_all is_relay rel"
        by (auto simp: janus_mutex_lock_def)
      with tr tl show ?thesis by auto
    qed
    then show "case z of (buf1, st1) \<Rightarrow> trace st1 = trace st
     \<or> (\<exists>rel tail. trace st1 = trace st @ Lock ?m # rel @ Unlock ?m # tail
           \<and> list_all is_relay rel \<and> \<not> list_ex is_relay tail)"
      unfolding z prod.case .
  qed
  with run show ?thesis by simp
qed


lemma incoming_data_trace:
  assumes run: "janus_lua_incoming_data (Some h) bytes len st = Some st1"
    and hs: "handles st h = Some hs" and p: "plugin_handle hs = Some p"
  shows "\<exists>new. trace st1 = trace st @ new \<and>
     (\<not> list_ex is_relay new
      \<or> (\<exists>rel tail. new = Lock (Recipients_mutex p) # rel @ Unlock (Recipients_mutex p) # tail
           \<and> list_all is_relay rel \<and> \<not> list_ex is_relay tail))"
proof -
  let ?m = "Recipients_mutex p"
  let ?text = "takeWhile (\<lambda>c. c \<noteq> CHR 0x00) (take (nat len) bytes)"
  from incoming_data_outcome [of st "Some h" len bytes] run
  have "st1 = st
      \<or> (\<exists>rs. st1 = st\<lparr>recorders := rs\<rparr>)
      \<or> (\<exists>args. st1 = janus_mutex_unlock Lua_mutex
                         (emit (Lua_call ''incomingData'' args) (janus_mutex_lock Lua_mutex st)))
      \<or> (\<exists>h' hs p x st2. Some h = Some h' \<and> handles st h' = Some hs
           \<and> plugin_handle hs = Some p \<and> heap st p = Some x
           \<and> relay_data_foreach (recipients x) (Some ?text)
                (janus_mutex_lock (Recipients_mutex p)
                   (g_malloc0 (st\<lparr>recorders := janus_recorder_save_frame (drc x) (recorders st)\<rparr>)))
               = Some st2
           \<and> st1 = g_free (Some ?text) (janus_mutex_unlock (Recipients_mutex p) st2))"
    by (simp only: option.pred_inject)
  then show ?thesis
  proof (elim disjE exE conjE)
    assume "st1 = st"
    then have "trace st1 = trace st @ [] \<and> \<not> list_ex is_relay []" by simp
    then show ?thesis by blast
  next
    fix rs
    assume "st1 = st\<lparr>recorders := rs\<rparr>"
    then have "trace st1 = trace st @ [] \<and> \<not> list_ex is_relay []" by simp
    then show ?thesis by blast
  next
    fix args
    assume "st1 = janus_mutex_unlock Lua_mutex
                         (emit (Lua_call ''incomingData'' args) (janus_mutex_lock Lua_mutex st))"
    then have "trace st1 = trace st @ [Lock Lua_mutex, Lua_call ''incomingData'' args, Unlock Lua_mutex]
        \<and> \<not> list_ex is_relay [Lock Lua_mutex, Lua_call ''incomingData'' args, Unlock Lua_mutex]"
      by (simp add: janus_mutex_lock_def janus_mutex_unlock_def)
    then show ?thesis by blast
  next
    fix x :: "'a janus_lua_session"
    fix h' hs' p' st2
    assume eq: "Some h = Some h'" "handles st h' = Some hs'" "plugin_handle hs' = Some p'"
      and fe: "relay_data_foreach (recipients x) (Some ?text)
                (janus_mutex_lock (Recipients_mutex p')
                   (g_malloc0 (st\<lparr>recorders := janus_recorder_save_frame (drc x) (recorders st)\<rparr>)))
               = Some st2"
      and s1: "st1 = g_free (Some ?text) (janus_mutex_unlock (Recipients_mutex p') st2)"
    from eq hs p have pp: "p' = p" by simp
    from relay_data_foreach_keeps [OF fe] obtain rel where
      "trace st2 = trace st @ Lock ?m # rel" "list_all is_relay rel"
      by (auto simp: janus_mutex_lock_def g_malloc0_def pp)
    with s1 pp have "trace st1 = trace st @ (Lock ?m # rel @ Unlock ?m # [])
        \<and> list_all is_relay rel \<and> \<not> list_ex is_relay []"
      by (simp add: g_free_def janus_mutex_unlock_def)
    then show ?thesis by blast
  qed
qed

text \<open>
  C9, as the code has it. In \<open>janus_lua_incoming_rtp\<close> and \<open>janus_lua_incoming_data\<close>
  the recipients mutex of the source session is held during the whole fan-out: if the
  call relays to any recipient, what it adds to the trace is the lock of that mutex, then
  the relay calls and nothing else, then the unlock, and after the unlock no relay call
  (only, for video, the keyframe request to the source).
\<close>

theorem fanout_under_recipients_mutex:
  assumes "handles st h = Some hs" and "plugin_handle hs = Some p"
  shows "(\<forall>upd le now video buf len buf1 st1.
            janus_lua_incoming_rtp upd le now (Some h) video buf len st = Some (buf1, st1) \<longrightarrow>
            (\<exists>new. trace st1 = trace st @ new \<and>
               (list_ex is_relay new \<longrightarrow>
                  (\<exists>rel tail. new = Lock (Recipients_mutex p) # rel @ Unlock (Recipients_mutex p) # tail
                     \<and> list_all is_relay rel \<and> \<not> list_ex is_relay tail))))
       \<and> (\<forall>bytes len st1.
            janus_lua_incoming_data (Some h) bytes len st = Some st1 \<longrightarrow>
            (\<exists>new. trace st1 = trace st @ new \<and>
               (list_ex is_relay new \<longrightarrow>
                  (\<exists>rel tail. new = Lock (Recipients_mutex p) # rel @ Unlock (Recipients_mutex p) # tail
                     \<and> list_all is_relay rel \<and> \<not> list_ex is_relay tail))))"
proof (intro conjI allI impI)
  fix upd :: "rtp_header \<Rightarrow> 'a \<Rightarrow> bool \<Rightarrow> int \<Rightarrow> rtp_header \<times> 'a"
  fix le now video buf len buf1 st1
  let ?m = "Recipients_mutex p"
  assume run: "janus_lua_incoming_rtp upd le now (Some h) video buf len st = Some (buf1, st1)"
  from incoming_rtp_trace [OF run assms]
  show "\<exists>new. trace st1 = trace st @ new \<and>
               (list_ex is_relay new \<longrightarrow>
                  (\<exists>rel tail. new = Lock ?m # rel @ Unlock ?m # tail
                     \<and> list_all is_relay rel \<and> \<not> list_ex is_relay tail))"
  proof (elim disjE exE conjE)
    assume "trace st1 = trace st"
    then have "trace st1 = trace st @ [] \<and> \<not> list_ex is_relay []" by simp
    then show ?thesis by blast
  next
    fix rel tail
    assume "trace st1 = trace st @ Lock ?m # rel @ Unlock ?m # tail"
      "list_all is_relay rel" "\<not> list_ex is_relay tail"
    then show ?thesis by blast
  qed
next
  fix bytes len st1
  let ?m = "Recipients_mutex p"
  assume run: "janus_lua_incoming_data (Some h) bytes len st = Some st1"
  from incoming_data_trace [OF run assms]
  show "\<exists>new. trace st1 = trace st @ new \<and>
               (list_ex is_relay new \<longrightarrow>
                  (\<exists>rel tail. new = Lock ?m # rel @ Unlock ?m # tail
                     \<and> list_all is_relay rel \<and> \<not> list_ex is_relay tail))"
    by blast
qed

theorem fanout_under_recipients_mutex_witness:
  "handles state_relay 1 = Some \<lparr>plugin_handle = Some 10, stopped = False, href = 1\<rparr>
   \<and> (\<exists>buf1 st1 rel tail.
         janus_lua_incoming_rtp shift_header True 5000000 (Some 1) True packet0 100 state_relay
           = Some (buf1, st1)
         \<and> list_ex is_relay (trace st1)
         \<and> trace st1 = trace state_relay @ Lock (Recipients_mutex 10) # rel @ Unlock (Recipients_mutex 10) # tail
         \<and> list_all is_relay rel \<and> \<not> list_ex is_relay tail)"
proof -
  have hs: "handles state_relay 1 = Some \<lparr>plugin_handle = Some 10, stopped = False, href = 1\<rparr>"
    and tr0: "trace state_relay = []"
    by (simp_all add: state_relay_def)
  have "\<exists>buf1 st1. janus_lua_incoming_rtp shift_header True 5000000 (Some 1) True packet0 100 state_relay
      = Some (buf1, st1) \<and> list_ex is_relay (trace st1)"
    by (simp add: janus_lua_incoming_rtp_def janus_lua_relay_rtp_packet_def state_relay_def
        session_src_def session_dst_def shift_header_def janus_recorder_save_frame_def
        janus_mutex_lock_def janus_mutex_unlock_def gateway_call_def G_USEC_PER_SEC_def Let_def)
  then obtain buf1 st1 where
    run: "janus_lua_incoming_rtp shift_header True 5000000 (Some 1) True packet0 100 state_relay
            = Some (buf1, st1)"
    and relays: "list_ex is_relay (trace st1)" by blast
  from fanout_under_recipients_mutex [OF hs, of 10] run
  have "\<exists>new. trace st1 = trace state_relay @ new \<and>
               (list_ex is_relay new \<longrightarrow>
                  (\<exists>rel tail. new = Lock (Recipients_mutex 10) # rel @ Unlock (Recipients_mutex 10) # tail
                     \<and> list_all is_relay rel \<and> \<not> list_ex is_relay tail))"
    by simp
  with relays tr0 obtain rel tail where
    "trace st1 = trace state_relay @ Lock (Recipients_mutex 10) # rel @ Unlock (Recipients_mutex 10) # tail"
    "list_all is_relay rel" "\<not> list_ex is_relay tail" by auto
  with hs run relays show ?thesis by blast
qed

text \<open>
  The claim as the specification words it has the mutex released before any relay call.
  With one recipient that accepts video, the call to the host's \<open>relay_rtp\<close> is made
  while the recipients mutex of the source is held.
\<close>

theorem relay_under_lock_counterexample:
  "relay_while_locked (Recipients_mutex 10) False
     (trace (snd (the (janus_lua_incoming_rtp shift_header True 5000000 (Some 1) True packet0 100
                         state_relay))))"
  by (simp add: janus_lua_incoming_rtp_def janus_lua_relay_rtp_packet_def state_relay_def
      session_src_def session_dst_def shift_header_def janus_recorder_save_frame_def
      janus_mutex_lock_def janus_mutex_unlock_def gateway_call_def G_USEC_PER_SEC_def Let_def)

subsection \<open>The status a call-out returns\<close>






lemma status_error: "callout_error w c s st \<Longrightarrow> callout_status w c s st = - 1"
  by (simp add: callout_status_def)



lemma ledger_fields:
  "heap (g_free b st) = heap st" "ids (g_free b st) = ids st"
  "handles (g_free b st) = handles st" "gateway (g_free b st) = gateway st"
  "heap (g_strdup t st) = heap st" "ids (g_strdup t st) = ids st"
  "handles (g_strdup t st) = handles st" "gateway (g_strdup t st) = gateway st"
  "heap (json_decref j st) = heap st" "ids (json_decref j st) = ids st"
  "handles (json_decref j st) = handles st" "gateway (json_decref j st) = gateway st"
  "heap (g_malloc0 st) = heap st" "ids (g_malloc0 st) = ids st"
  "handles (g_malloc0 st) = handles st" "gateway (g_malloc0 st) = gateway st"
  by (simp_all add: g_free_def g_strdup_def json_decref_def g_malloc0_def split: option.splits)

























end
